theory Spec2Isabelle
  imports Main "HOL-Library.Sublist" "HOL-Library.AList"
begin

section \<open>Data model\<close>

text \<open>
  Exceptions of the Python source are values; a function that can raise returns
  \<open>py_exn + 'a\<close>, with \<open>Inl\<close> for the exception.
\<close>

datatype py_exn =
    KeyError | ValueError | TypeError | AssertionError
  | SessionNotFoundError | AccessDeniedError
  | InvalidClientSecret | InvalidRedirectURI | ClientError

text \<open>
  A value whose Python type is not fixed by the parameter that receives it (the nonce and
  redirect URI slots of the OAuth2 builder receive whatever the caller passes).
\<close>

datatype pyval = PyStr string | PyInt int | PyStrSet "string set"

text \<open>The authz map: tenant name or \<^verbatim>\<open>*\<close> to the list of resources.\<close>

type_synonym authz = "(string \<times> string list) list"

text \<open>
  The fields of \<^verbatim>\<open>SessionAdapter\<close> that the handlers and the OpenID Connect service read
  or write. \<open>Authentication_LoginDescriptor\<close> keeps the \<^verbatim>\<open>type\<close> of each entry of
  \<^verbatim>\<open>LoginDescriptor["factors"]\<close>.
\<close>

record session =
  SessionId :: string
  Session_Type :: string
  Session_ParentSessionId :: "string option"
  TrackId :: "string option"
  Credentials_Id :: string
  Credentials_Username :: "string option"
  Authentication_LoginDescriptor :: "string list option"
  Authentication_LoginFactors :: "string list option"
  Authentication_AvailableFactors :: "string list option"
  Authentication_ExternalLoginOptions :: "(string \<times> string) list option"
  Authentication_ImpersonatorSessionId :: "string option"
  Authentication_ImpersonatorCredentialsId :: "string option"
  Authorization_Authz :: "authz option"
  Authorization_AssignedTenants :: "string list option"
  OAuth2_ClientId :: "string option"
  OAuth2_Scope :: "string list option"
  OAuth2_Nonce :: "pyval option"
  OAuth2_RedirectUri :: "pyval option"
  OAuth2_AccessToken :: "string option"
  Batman_Token :: "string option"

text \<open>
  An HTTP response: status, headers, and what \<^verbatim>\<open>set_cookie\<close> / \<^verbatim>\<open>delete_cookie\<close> of
  \<^verbatim>\<open>cookie.utils\<close> did to it (they are called with the response as argument; the value
  records the call and the session it was given).
\<close>

datatype cookie_action = CookieUntouched | CookieSet string | CookieDeleted

record response =
  status :: nat
  headers :: "(string \<times> string) list"
  cookie :: cookie_action

definition header :: "response \<Rightarrow> string \<Rightarrow> string option" where
  "header r name = map_of (headers r) name"

text \<open>\<open>split_on\<close> is \<^verbatim>\<open>s.split(sep)\<close> for a one-character separator.\<close>

fun split_on :: "char \<Rightarrow> string \<Rightarrow> string list" where
  "split_on sep [] = [[]]"
| "split_on sep (x # xs) =
     (if x = sep then [] # split_on sep xs
      else (case split_on sep xs of
              w # ws \<Rightarrow> (x # w) # ws
            | [] \<Rightarrow> [[x]]))"

section \<open>Cookie introspection (cookie/service.py, cookie/handler.py)\<close>

text \<open>
  \<^verbatim>\<open>CookieHandler.__init__\<close> compiles
  \<^verbatim>\<open>"(^{cookie}=[^;]*; ?|; ?{cookie}=[^;]*)".format(cookie=CookieName)\<close>
  and \<^verbatim>\<open>nginx\<close> calls \<^verbatim>\<open>CookiePattern.sub("", cookie_string)\<close>.
  The cookie name is pasted into the pattern unescaped; the model reads it as a literal,
  which is what the pattern means for a name without regular-expression metacharacters
  (such as the default \<^verbatim>\<open>SeaCatSCI\<close>).

  \<open>not_semicolon\<close> is \<^verbatim>\<open>[^;]*\<close>: greedy, it consumes every character up to the next
  semicolon (or the end of the text).
\<close>

definition not_semicolon :: "string \<Rightarrow> string" where
  "not_semicolon s = dropWhile (\<lambda>c. c \<noteq> CHR '';'') s"

text \<open>
  First alternative, \<^verbatim>\<open>^{cookie}=[^;]*; ?\<close>, tried at the start of the header only. After
  the greedy value a semicolon must follow; backtracking into the value cannot help, since
  the value holds no semicolon. The result is the text left after the match.
\<close>

definition match_leading :: "string \<Rightarrow> string \<Rightarrow> string option" where
  "match_leading name s =
     (if prefix (name @ ''='') s then
        (case not_semicolon (drop (length name + 1) s) of
           [] \<Rightarrow> None
         | _ # r \<Rightarrow> (case r of
                      c # r' \<Rightarrow> if c = CHR '' '' then Some r' else Some r
                    | [] \<Rightarrow> Some r))
      else None)"

text \<open>
  Second alternative, \<^verbatim>\<open>; ?{cookie}=[^;]*\<close>: a semicolon, an optional space (taken when
  the name follows it, otherwise given back), the name, the equals sign and the value.
\<close>

definition match_following :: "string \<Rightarrow> string \<Rightarrow> string option" where
  "match_following name s =
     (case s of
        [] \<Rightarrow> None
      | c # r \<Rightarrow>
          if c \<noteq> CHR '';'' then None
          else if r \<noteq> [] \<and> hd r = CHR '' '' \<and> prefix (name @ ''='') (tl r)
            then Some (not_semicolon (drop (length name + 1) (tl r)))
          else if prefix (name @ ''='') r
            then Some (not_semicolon (drop (length name + 1) r))
          else None)"

definition match_at :: "string \<Rightarrow> bool \<Rightarrow> string \<Rightarrow> string option" where
  "match_at name at_start s =
     (case (if at_start then match_leading name s else None) of
        Some r \<Rightarrow> Some r
      | None \<Rightarrow> match_following name s)"

lemma not_semicolon_length: "length (not_semicolon s) \<le> length s"
  by (simp add: not_semicolon_def length_dropWhile_le)

lemma match_leading_shorter:
  assumes "match_leading name s = Some r"
  shows "length r < length s"
proof -
  from assms have p: "prefix (name @ ''='') s"
    by (simp add: match_leading_def split: if_splits)
  let ?t = "not_semicolon (drop (length name + 1) s)"
  have l: "length ?t \<le> length s - (length name + 1)"
    using not_semicolon_length [of "drop (length name + 1) s"] by simp
  from p have "length name + 1 \<le> length s"
    using prefix_length_le by fastforce
  with l have l2: "length ?t < length s" by simp
  from assms p l2 show ?thesis
    by (auto simp: match_leading_def split: list.splits if_splits)
qed

lemma match_following_shorter:
  assumes "match_following name s = Some r"
  shows "length r < length s"
proof (cases s)
  case Nil
  with assms show ?thesis by (simp add: match_following_def)
next
  case (Cons c t)
  have a: "length (not_semicolon (drop n t)) \<le> length t" for n
    using not_semicolon_length [of "drop n t"] by simp
  have b: "length (not_semicolon (drop n (tl t))) \<le> length t" for n
    using not_semicolon_length [of "drop n (tl t)"] by simp
  from assms Cons show ?thesis
    using a [of "Suc (length name)"] b [of "Suc (length name)"]
    by (auto simp: match_following_def le_imp_less_Suc split: if_splits)
qed

lemma match_at_shorter: "match_at name b s = Some r \<Longrightarrow> length r < length s"
  by (auto simp: match_at_def split: option.splits if_splits
      dest: match_leading_shorter match_following_shorter)

text \<open>
  \<^verbatim>\<open>re.sub("", s)\<close>: scan from the left; where the pattern matches, drop the match and go
  on after it; elsewhere keep the character. A match is never empty. \<^verbatim>\<open>^\<close> holds at
  position 0 only (no MULTILINE flag).
\<close>

function (sequential) CookiePattern_sub :: "string \<Rightarrow> bool \<Rightarrow> string \<Rightarrow> string" where
  "CookiePattern_sub name at_start [] = []"
| "CookiePattern_sub name at_start (c # cs) =
     (case match_at name at_start (c # cs) of
        Some r \<Rightarrow> CookiePattern_sub name False r
      | None \<Rightarrow> c # CookiePattern_sub name False cs)"
  by pat_completeness auto
termination
  by (relation "measure (\<lambda>(n, b, s). length s)") (auto dest: match_at_shorter)

text \<open>
  \<^verbatim>\<open>CookieService\<close> (cookie/service.py). \<^verbatim>\<open>_get_session_cookie_id\<close> splits the Cookie header
  at every semicolon and looks in each piece for a cookie of the configured name; the value
  must be \<^verbatim>\<open><domain>:<encoded id>\<close> with the root cookie domain or one of the application
  domains, otherwise the piece is skipped. The first piece that fits decides.
  \<open>SimpleCookie_get\<close> stands for \<^verbatim>\<open>http.cookies.SimpleCookie(cookie_string).get(name)\<close> and
  yields the value of that cookie, \<open>urlsafe_b64decode\<close> for \<^verbatim>\<open>base64.urlsafe_b64decode\<close>
  (malformed input is a ValueError, which nothing catches), and
  \<open>SessionService_get_by_cookie_id\<close> for \<^verbatim>\<open>SessionService.get_by\<close> on the cookie id field,
  where \<open>None\<close> is its KeyError; \<^verbatim>\<open>add_to_header\<close> is imported from \<^verbatim>\<open>generic\<close>. These four
  are parameters.
\<close>

record nginx_request =
  Cookie_header :: "string option"
  query_keepcookie :: "string option"
  query_add :: "string list"

record cookie_env =
  CookieName :: string
  RootCookieDomain :: string
  ApplicationCookieDomains :: "string set"
  SimpleCookie_get :: "string \<Rightarrow> string \<Rightarrow> string option"
  urlsafe_b64decode :: "string \<Rightarrow> string option"
  SessionService_get_by_cookie_id :: "string \<Rightarrow> session option"
  add_to_header ::
    "(string \<times> string) list \<Rightarrow> string list \<Rightarrow> session \<Rightarrow> (string \<times> string) list"

definition split_domain :: "string \<Rightarrow> (string \<times> string) option" where
  \<comment> \<open>\<^verbatim>\<open>domain, session_cookie_id_encoded = cookie.value.split(":", 1)\<close>; without a colon the
     unpacking raises the ValueError that the loop catches\<close>
  "split_domain v =
     (if CHR '':'' \<in> set v
      then Some (takeWhile (\<lambda>c. c \<noteq> CHR '':'') v, drop 1 (dropWhile (\<lambda>c. c \<noteq> CHR '':'') v))
      else None)"

fun session_cookie_id_loop :: "cookie_env \<Rightarrow> string list \<Rightarrow> py_exn + string option" where
  "session_cookie_id_loop e [] = Inr None"
| "session_cookie_id_loop e (cookie_string # rest) =
     (case SimpleCookie_get e cookie_string (CookieName e) of
        None \<Rightarrow> session_cookie_id_loop e rest
      | Some v \<Rightarrow>
          (case split_domain v of
             None \<Rightarrow> session_cookie_id_loop e rest
           | Some (domain, session_cookie_id_encoded) \<Rightarrow>
               if domain = RootCookieDomain e \<or> domain \<in> ApplicationCookieDomains e
               then (case urlsafe_b64decode e session_cookie_id_encoded of
                       None \<Rightarrow> Inl ValueError
                     | Some session_cookie_id \<Rightarrow> Inr (Some session_cookie_id))
               else session_cookie_id_loop e rest))"

definition get_session_cookie_id :: "cookie_env \<Rightarrow> nginx_request \<Rightarrow> py_exn + string option" where
  "get_session_cookie_id e request =
     (case Cookie_header request of
        None \<Rightarrow> Inr None
      | Some raw_cookies \<Rightarrow> session_cookie_id_loop e (split_on CHR '';'' raw_cookies))"

definition get_session_by_sci :: "cookie_env \<Rightarrow> nginx_request \<Rightarrow> py_exn + session option" where
  "get_session_by_sci e request =
     (case get_session_cookie_id e request of
        Inl x \<Rightarrow> Inl x
      | Inr None \<Rightarrow> Inr None
      | Inr (Some session_cookie_id) \<Rightarrow> Inr (SessionService_get_by_cookie_id e session_cookie_id))"

text \<open>
  \<^verbatim>\<open>CookieHandler.nginx\<close> (cookie/handler.py). Without a session the answer is 401 and the
  cookie is deleted. \<^verbatim>\<open>SessionService.touch\<close> changes the stored expiry only, which no
  header depends on. A missing Cookie header cannot resolve to a session.
\<close>

definition nginx :: "cookie_env \<Rightarrow> nginx_request \<Rightarrow> py_exn + response" where
  "nginx e request =
     (case get_session_by_sci e request of
        Inl x \<Rightarrow> Inl x
      | Inr None \<Rightarrow> Inr \<lparr>status = 401, headers = [], cookie = CookieDeleted\<rparr>
      | Inr (Some session) \<Rightarrow>
          (case OAuth2_AccessToken session of
             None \<Rightarrow> Inl KeyError
           | Some access_token \<Rightarrow>
               let hs = [(''Authorization'', ''Bearer '' @ access_token)];
                   keep_cookie = query_keepcookie request;
                   cookie_string = Cookie_header request
               in (case cookie_string of
                     None \<Rightarrow> Inl TypeError
                   | Some cs \<Rightarrow>
                       let cs' = (if keep_cookie = None
                                  then CookiePattern_sub (CookieName e) True cs else cs);
                           hs' = AList.update ''Cookie'' cs' hs
                       in Inr \<lparr>status = 200,
                               headers = add_to_header e hs' (query_add request) session,
                               cookie = CookieUntouched\<rparr>)))"

section \<open>LDAP credentials provider (credentials/providers/ldap.py)\<close>

text \<open>
  The provider talks to the directory through a python-ldap connection object. The model
  records every call on that object as an event, in order, so that what happened to the
  connection on each exit path can be read off the trace. The directory's answers
  (\<^verbatim>\<open>simple_bind_s\<close>, \<^verbatim>\<open>search_s\<close>) are parameters.
\<close>

datatype ldap_exn = INVALID_CREDENTIALS | NO_SUCH_OBJECT | SERVER_DOWN

datatype ldap_raise = LdapError ldap_exn | PyError py_exn | IndexError

datatype ldap_event =
    Initialize string
  | SetOption string string
  | SetNetworkTimeout int
  | SimpleBind string "string option"
  | SearchS string
  | UnbindS

type_synonym ldap_entry = "(string \<times> string list) list"

record ldap_config =
  LdapUri :: string
  Config_username :: string
  Config_password :: string
  Config_filter :: string
  Config_network_timeout :: "int option"
  Config_tls_cafile :: string
  Config_tls_require_cert :: string
  Config_tls_protocol_min :: string
  Config_tls_protocol_max :: string
  Config_tls_cipher_suite :: string
  decode_dn :: "string \<Rightarrow> string option"
  normalize_credentials :: "string \<Rightarrow> ldap_entry \<Rightarrow> ldap_entry"

record ldap_server =
  simple_bind_s :: "string \<Rightarrow> string option \<Rightarrow> ldap_exn option"
  search_s :: "string \<Rightarrow> ldap_exn + (string \<times> ldap_entry) list"

definition TLS_VERSION :: "string list" where
  "TLS_VERSION = [''1.0'', ''1.1'', ''1.2'', ''1.3'']"

text \<open>
  \<^verbatim>\<open>_enable_tls\<close>: the options set on the connection, and the ValueError of an unknown
  protocol version. An unknown \<^verbatim>\<open>tls_require_cert\<close> is logged and falls back to
  \<^verbatim>\<open>demand\<close>.
\<close>

definition enable_tls :: "ldap_config \<Rightarrow> py_exn option \<times> ldap_event list" where
  "enable_tls c =
     (let ev1 = (if length (Config_tls_cafile c) > 0
                 then [SetOption ''OPT_X_TLS_CACERTFILE'' (Config_tls_cafile c)] else []);
          policy = (if Config_tls_require_cert c = ''never'' then ''OPT_X_TLS_NEVER''
                    else if Config_tls_require_cert c = ''demand'' then ''OPT_X_TLS_DEMAND''
                    else if Config_tls_require_cert c = ''allow'' then ''OPT_X_TLS_ALLOW''
                    else if Config_tls_require_cert c = ''hard'' then ''OPT_X_TLS_HARD''
                    else ''OPT_X_TLS_DEMAND'');
          ev2 = ev1 @ [SetOption ''OPT_X_TLS_REQUIRE_CERT'' policy]
      in if Config_tls_protocol_min c \<noteq> '''' \<and> Config_tls_protocol_min c \<notin> set TLS_VERSION
         then (Some ValueError, ev2)
         else
           let ev3 = ev2 @ (if Config_tls_protocol_min c \<noteq> ''''
                            then [SetOption ''OPT_X_TLS_PROTOCOL_MIN'' (Config_tls_protocol_min c)]
                            else [])
           in if Config_tls_protocol_max c \<noteq> '''' \<and> Config_tls_protocol_max c \<notin> set TLS_VERSION
              then (Some ValueError, ev3)
              else
                (None,
                 ev3
                 @ (if Config_tls_protocol_max c \<noteq> ''''
                    then [SetOption ''OPT_X_TLS_PROTOCOL_MAX'' (Config_tls_protocol_max c)] else [])
                 @ (if Config_tls_cipher_suite c \<noteq> ''''
                    then [SetOption ''OPT_X_TLS_CIPHER_SUITE'' (Config_tls_cipher_suite c)] else [])
                 @ [SetOption ''OPT_X_TLS_NEWCTX'' ''0'']))"

text \<open>
  \<^verbatim>\<open>_ldap_client\<close>, the context manager of the search workers: create the connection,
  bind the service account, run the body, and \<^verbatim>\<open>unbind_s\<close> in the \<^verbatim>\<open>finally\<close> clause. The
  bind is outside the \<^verbatim>\<open>try\<close>: when it raises, the body does not run and nothing unbinds.
  The body receives nothing from the manager but the connection, so it is given as the
  outcome and the events it produces on that connection.
\<close>

definition ldap_client ::
  "ldap_config \<Rightarrow> ldap_server \<Rightarrow> (ldap_raise + 'a) \<times> ldap_event list
     \<Rightarrow> (ldap_raise + 'a) \<times> ldap_event list" where
  "ldap_client c srv body =
     (let ev0 = [Initialize (LdapUri c), SetOption ''protocol_version'' ''3'',
                 SetOption ''OPT_REFERRALS'' ''0'']
      in case Config_network_timeout c of
           None \<Rightarrow> (Inl (PyError ValueError), ev0)
         | Some t \<Rightarrow>
             let ev1 = ev0 @ [SetNetworkTimeout t];
                 (tls_exn, tls_ev) = (if prefix ''ldaps'' (LdapUri c) then enable_tls c else (None, []));
                 ev2 = ev1 @ tls_ev
             in case tls_exn of
                  Some x \<Rightarrow> (Inl (PyError x), ev2)
                | None \<Rightarrow>
                    let ev3 = ev2 @ [SimpleBind (Config_username c) (Some (Config_password c))]
                    in case simple_bind_s srv (Config_username c) (Some (Config_password c)) of
                         Some x \<Rightarrow> (Inl (LdapError x), ev3)
                       | None \<Rightarrow> (fst body, ev3 @ snd body @ [UnbindS]))"

text \<open>
  \<^verbatim>\<open>_get_worker\<close>: a base-scope search under the managed connection. A missing object is
  a KeyError raised inside the \<^verbatim>\<open>with\<close> block; the checks on the result list run after it.
\<close>

definition get_worker ::
  "ldap_config \<Rightarrow> ldap_server \<Rightarrow> string \<Rightarrow> (ldap_raise + ldap_entry) \<times> ldap_event list" where
  "get_worker c srv credentials_suffix =
     (case decode_dn c credentials_suffix of
        None \<Rightarrow> (Inl (PyError ValueError), [])
      | Some cn \<Rightarrow>
          let (r, ev) =
                ldap_client c srv
                  (case search_s srv cn of
                     Inl x \<Rightarrow> (if x = NO_SUCH_OBJECT then Inl (PyError KeyError) else Inl (LdapError x),
                               [SearchS cn])
                   | Inr results \<Rightarrow> (Inr results, [SearchS cn]))
          in case r of
               Inl x \<Rightarrow> (Inl x, ev)
             | Inr results \<Rightarrow>
                 if length results > 1 then (Inl (PyError KeyError), ev)
                 else (case results of
                         [] \<Rightarrow> (Inl IndexError, ev)
                       | (dn, entry) # _ \<Rightarrow> (Inr (normalize_credentials c dn entry), ev)))"

text \<open>
  \<^verbatim>\<open>_authenticate_worker\<close> does not use the context manager. It creates its own
  connection and binds as the user; \<^verbatim>\<open>unbind_s\<close> is the statement after the
  \<^verbatim>\<open>try\<close>/\<^verbatim>\<open>except\<close>, and the handler of \<^verbatim>\<open>INVALID_CREDENTIALS\<close> returns before it.
\<close>

definition authenticate_worker ::
  "ldap_config \<Rightarrow> ldap_server \<Rightarrow> string \<Rightarrow> string option
     \<Rightarrow> (ldap_raise + bool) \<times> ldap_event list" where
  "authenticate_worker c srv credentials_suffix password =
     (case decode_dn c credentials_suffix of
        None \<Rightarrow> (Inl (PyError ValueError), [])
      | Some dn \<Rightarrow>
          let ev0 = [Initialize (LdapUri c), SetOption ''protocol_version'' ''3'',
                     SetOption ''OPT_REFERRALS'' ''0''];
              (tls_exn, tls_ev) = (if prefix ''ldaps'' (LdapUri c) then enable_tls c else (None, []));
              ev1 = ev0 @ tls_ev
          in case tls_exn of
               Some x \<Rightarrow> (Inl (PyError x), ev1)
             | None \<Rightarrow>
                 let ev2 = ev1 @ [SimpleBind dn password]
                 in case simple_bind_s srv dn password of
                      Some x \<Rightarrow>
                        if x = INVALID_CREDENTIALS then (Inr False, ev2)
                        else (Inl (LdapError x), ev2)
                    | None \<Rightarrow> (Inr True, ev2 @ [UnbindS]))"

section \<open>Token and session stores\<close>

text \<open>
  \<^verbatim>\<open>SessionService\<close> and its \<^verbatim>\<open>TokenService\<close> are used by the OpenID Connect service but
  are defined elsewhere. The store holds two maps, tokens by their bytes and sessions by
  id, and the records appended to the audit service: an authorize success with credentials
  id, tenants, client id and scope, or an authorize error with client id, error code and
  the credentials id when one was given (the further keyword details of an error record
  are not kept).
\<close>

record token_record =
  token_type :: string
  token_sid :: string
  token_expires_at :: nat

datatype audit_entry =
    AUTHORIZE_SUCCESS string "string list" "string option" "string list option"
  | AUTHORIZE_ERROR string string "string option"

record store =
  tokens :: "string \<rightharpoonup> token_record"
  sessions :: "string \<rightharpoonup> session"
  audit :: "audit_entry list"

definition TokenService_get :: "store \<Rightarrow> nat \<Rightarrow> string \<Rightarrow> string \<Rightarrow> py_exn + token_record" where
  \<comment> \<open>Modelled from the spec: \<^verbatim>\<open>TokenService.get\<close> is not in the source tree. Token Store,
     \<^verbatim>\<open>get(token_bytes, expected_type)\<close>: fails with NotFound (a KeyError for the caller) if
     the token is absent, expired, or typed differently than requested.\<close>
  "TokenService_get st now token_bytes expected_type =
     (case tokens st token_bytes of
        None \<Rightarrow> Inl KeyError
      | Some t \<Rightarrow>
          if token_expires_at t \<le> now \<or> token_type t \<noteq> expected_type then Inl KeyError
          else Inr t)"

definition TokenService_delete_token :: "store \<Rightarrow> string \<Rightarrow> store" where
  \<comment> \<open>Modelled from the spec: \<^verbatim>\<open>TokenService.delete_token\<close> is not in the source tree. Token
     Store, \<^verbatim>\<open>delete(token_bytes)\<close>: the record is removed.\<close>
  "TokenService_delete_token st token_bytes = st\<lparr>tokens := (tokens st)(token_bytes := None)\<rparr>"

definition SessionService_get :: "store \<Rightarrow> string \<Rightarrow> py_exn + session" where
  \<comment> \<open>Modelled from the spec: \<^verbatim>\<open>SessionService.get\<close> is not in the source tree. Session
     Store, \<^verbatim>\<open>get(id)\<close>: the session or NotFound (the callers catch KeyError).\<close>
  "SessionService_get st session_id =
     (case sessions st session_id of None \<Rightarrow> Inl KeyError | Some s \<Rightarrow> Inr s)"

definition AccessToken_TokenType :: string where
  "AccessToken_TokenType = ''oat''"

text \<open>
  \<^verbatim>\<open>OpenIdConnectService.get_session_by_access_token\<close> (openidconnect/service.py). The
  function \<open>b64decode\<close> stands for \<^verbatim>\<open>base64.urlsafe_b64decode\<close> of the ASCII encoding of
  the token value; both steps raise a ValueError on malformed input. The result is the
  outcome together with the store as the call leaves it.
\<close>

definition get_session_by_access_token ::
  "(string \<Rightarrow> string option) \<Rightarrow> store \<Rightarrow> nat \<Rightarrow> string \<Rightarrow> (py_exn + session) \<times> store" where
  "get_session_by_access_token b64decode st now token_value =
     (case b64decode token_value of
        None \<Rightarrow> (Inl ValueError, st)
      | Some token_bytes \<Rightarrow>
          (case TokenService_get st now token_bytes AccessToken_TokenType of
             Inl _ \<Rightarrow> (Inl SessionNotFoundError, st)
           | Inr token_data \<Rightarrow>
               (case SessionService_get st (token_sid token_data) of
                  Inl _ \<Rightarrow> (Inl SessionNotFoundError, TokenService_delete_token st token_bytes)
                | Inr session \<Rightarrow> (Inr session, st))))"

section \<open>Collaborators of the OpenID Connect service and of the authorize handler\<close>

text \<open>
  The services below are looked up by name at run time and are defined outside the source
  tree at hand; what they return is a parameter of the model. So are the functions of
  Python's \<^verbatim>\<open>urllib.parse\<close> that take a URL apart or put it together, \<^verbatim>\<open>int\<close> on a string, and
  Base64 encoding. Where the source only tests the truth value of a result
  (\<^verbatim>\<open>has_resource_access\<close>), the parameter is that truth value.
\<close>

record parsed_url =
  scheme :: string
  netloc :: string
  path :: string
  params :: string
  query :: string
  fragment :: string

record credentials =
  enforce_factors :: "string list option"

datatype tenant_scope_error = TenantNotFoundError | TenantAccessDeniedError | NoTenantsError

text \<open>One assignment of a session builder: the field and the value written to it.\<close>

datatype builder_item =
    Set_Credentials_Id string
  | Set_Credentials_Username "string option"
  | Set_Authorization_Authz authz
  | Set_Authorization_AssignedTenants "string list"
  | Set_Authentication_LoginDescriptor "string list option"
  | Set_Authentication_LoginFactors "string list option"
  | Set_Authentication_AvailableFactors "string list"
  | Set_Authentication_ExternalLoginOptions "(string \<times> string) list"
  | Set_Authentication_ImpersonatorSessionId "string option"
  | Set_Authentication_ImpersonatorCredentialsId "string option"
  | Set_OAuth2_ClientId string
  | Set_OAuth2_Scope "string list"
  | Set_OAuth2_Nonce "pyval option"
  | Set_OAuth2_RedirectUri "pyval option"
  | Set_Batman_Token string
  | Set_Session_TrackId string

record services =
  \<comment> \<open>ClientService.authorize_client: the exception it raises, if any\<close>
  authorize_client :: "string \<Rightarrow> string option \<Rightarrow> string \<Rightarrow> string list \<Rightarrow> py_exn option"
  \<comment> \<open>TenantService.TenantsProvider: the tenants assigned to a credentials id\<close>
  TenantsProvider :: "(string \<Rightarrow> string list) option"
  \<comment> \<open>TenantService.get_tenant: False stands for the KeyError of an unknown tenant\<close>
  get_tenant :: "string \<Rightarrow> bool"
  get_tenants_by_scope :: "string list \<Rightarrow> string \<Rightarrow> bool \<Rightarrow> tenant_scope_error + string list"
  \<comment> \<open>RBACService\<close>
  has_resource_access :: "authz option \<Rightarrow> string option \<Rightarrow> string list \<Rightarrow> bool"
  can_access_all_tenants :: "authz \<Rightarrow> bool"
  \<comment> \<open>RoleService: resources of the global roles and of the roles within a tenant\<close>
  global_role_resources :: "string \<Rightarrow> string list"
  tenant_role_resources :: "string \<Rightarrow> string \<Rightarrow> string list"
  \<comment> \<open>AuditService\<close>
  get_last_authorized_tenants :: "string \<Rightarrow> string list"
  \<comment> \<open>AuthenticationService\<close>
  EnforceFactors :: "string list option"
  get_eligible_factors :: "string \<Rightarrow> string list"
  \<comment> \<open>ExternalLoginService.list: pairs of provider type and account id\<close>
  external_login_list :: "string \<Rightarrow> (string \<times> string) list"
  \<comment> \<open>BatmanService\<close>
  generate_password :: "string \<Rightarrow> string"
  \<comment> \<open>CredentialsService\<close>
  CredentialsService_get :: "string \<Rightarrow> credentials option"
  credentials_session_builder :: "string \<Rightarrow> string list \<Rightarrow> builder_item list"
  \<comment> \<open>fresh identifiers and random token bytes, as functions of the store\<close>
  new_session_id :: "store \<Rightarrow> string"
  new_token_bytes :: "store \<Rightarrow> string"
  \<comment> \<open>configuration: lifetime of an authorization code, in seconds\<close>
  AuthorizationCode_Expiration :: nat
  \<comment> \<open>Python library\<close>
  urlparse :: "string \<Rightarrow> parsed_url"
  urlunparse :: "parsed_url \<Rightarrow> string"
  parse_qs :: "string \<Rightarrow> (string \<times> string list) list"
  parse_int :: "string \<Rightarrow> int option"
  b64encode_ascii :: "string \<Rightarrow> string option"
  urlsafe_b64encode :: "string \<Rightarrow> string"

section \<open>Session builders and the session store\<close>

fun apply_builder :: "session \<Rightarrow> builder_item \<Rightarrow> session" where
  "apply_builder s (Set_Credentials_Id v) = s\<lparr>Credentials_Id := v\<rparr>"
| "apply_builder s (Set_Credentials_Username v) = s\<lparr>Credentials_Username := v\<rparr>"
| "apply_builder s (Set_Authorization_Authz v) = s\<lparr>Authorization_Authz := Some v\<rparr>"
| "apply_builder s (Set_Authorization_AssignedTenants v) = s\<lparr>Authorization_AssignedTenants := Some v\<rparr>"
| "apply_builder s (Set_Authentication_LoginDescriptor v) = s\<lparr>Authentication_LoginDescriptor := v\<rparr>"
| "apply_builder s (Set_Authentication_LoginFactors v) = s\<lparr>Authentication_LoginFactors := v\<rparr>"
| "apply_builder s (Set_Authentication_AvailableFactors v) = s\<lparr>Authentication_AvailableFactors := Some v\<rparr>"
| "apply_builder s (Set_Authentication_ExternalLoginOptions v) = s\<lparr>Authentication_ExternalLoginOptions := Some v\<rparr>"
| "apply_builder s (Set_Authentication_ImpersonatorSessionId v) = s\<lparr>Authentication_ImpersonatorSessionId := v\<rparr>"
| "apply_builder s (Set_Authentication_ImpersonatorCredentialsId v) = s\<lparr>Authentication_ImpersonatorCredentialsId := v\<rparr>"
| "apply_builder s (Set_OAuth2_ClientId v) = s\<lparr>OAuth2_ClientId := Some v\<rparr>"
| "apply_builder s (Set_OAuth2_Scope v) = s\<lparr>OAuth2_Scope := Some v\<rparr>"
| "apply_builder s (Set_OAuth2_Nonce v) = s\<lparr>OAuth2_Nonce := v\<rparr>"
| "apply_builder s (Set_OAuth2_RedirectUri v) = s\<lparr>OAuth2_RedirectUri := v\<rparr>"
| "apply_builder s (Set_Batman_Token v) = s\<lparr>Batman_Token := Some v\<rparr>"
| "apply_builder s (Set_Session_TrackId v) = s\<lparr>TrackId := Some v\<rparr>"

definition apply_builders :: "session \<Rightarrow> builder_item list list \<Rightarrow> session" where
  \<comment> \<open>Modelled from the spec: the session store's application of builders is not in the
     source tree. Session Store: builders are ordered tuples (field path, value) applied in
     sequence; the last write wins.\<close>
  "apply_builders s session_builders = foldl apply_builder s (concat session_builders)"

definition blank_session :: "string \<Rightarrow> string \<Rightarrow> string option \<Rightarrow> session" where
  "blank_session session_id session_type parent_session_id =
     \<lparr>SessionId = session_id, Session_Type = session_type,
      Session_ParentSessionId = parent_session_id,
      TrackId = None, Credentials_Id = '''', Credentials_Username = None,
      Authentication_LoginDescriptor = None, Authentication_LoginFactors = None,
      Authentication_AvailableFactors = None, Authentication_ExternalLoginOptions = None,
      Authentication_ImpersonatorSessionId = None,
      Authentication_ImpersonatorCredentialsId = None,
      Authorization_Authz = None, Authorization_AssignedTenants = None,
      OAuth2_ClientId = None, OAuth2_Scope = None, OAuth2_Nonce = None,
      OAuth2_RedirectUri = None, OAuth2_AccessToken = None, Batman_Token = None\<rparr>"

definition SessionService_create_session ::
  "services \<Rightarrow> store \<Rightarrow> string \<Rightarrow> string option \<Rightarrow> int option \<Rightarrow> builder_item list list
     \<Rightarrow> session \<times> store" where
  \<comment> \<open>Modelled from the spec: \<^verbatim>\<open>SessionService.create_session\<close> is not in the source tree.
     Session Store, \<^verbatim>\<open>create(type, parent_id?, builders, requested_ttl?)\<close>: a new session
     with a unique id is assembled from the builders and persisted. The expiry is not a
     field of the model.\<close>
  "SessionService_create_session e st session_type parent_session_id expiration session_builders =
     (let s = apply_builders (blank_session (new_session_id e st) session_type parent_session_id)
                session_builders
      in (s, st\<lparr>sessions := (sessions st)(SessionId s \<mapsto> s)\<rparr>))"

definition SessionService_update_session ::
  "store \<Rightarrow> string \<Rightarrow> builder_item list list \<Rightarrow> py_exn + session \<times> store" where
  \<comment> \<open>Modelled from the spec: \<^verbatim>\<open>SessionService.update_session\<close> is not in the source tree.
     Session Store, \<^verbatim>\<open>update(id, builders)\<close>: the stored session with the builders applied.\<close>
  "SessionService_update_session st session_id session_builders =
     (case sessions st session_id of
        None \<Rightarrow> Inl KeyError
      | Some s0 \<Rightarrow>
          let s = apply_builders s0 session_builders
          in Inr (s, st\<lparr>sessions := (sessions st)(session_id \<mapsto> s)\<rparr>))"

definition SessionService_delete :: "store \<Rightarrow> string \<Rightarrow> store" where
  \<comment> \<open>Modelled from the spec: \<^verbatim>\<open>SessionService.delete\<close> is not in the source tree. Session
     Store, \<^verbatim>\<open>delete(id)\<close>: cascades to the tokens of the session and to the children whose
     parent is the session.\<close>
  "SessionService_delete st session_id =
     st\<lparr>sessions := (\<lambda>k. case sessions st k of
                          None \<Rightarrow> None
                        | Some s \<Rightarrow> if k = session_id \<or> Session_ParentSessionId s = Some session_id
                                    then None else Some s),
        tokens := (\<lambda>k. case tokens st k of
                          None \<Rightarrow> None
                        | Some t \<Rightarrow> if token_sid t = session_id then None else Some t)\<rparr>"

definition build_credentials_authz ::
  "services \<Rightarrow> string \<Rightarrow> string list option \<Rightarrow> string set \<Rightarrow> authz" where
  \<comment> \<open>Modelled from the spec: \<^verbatim>\<open>build_credentials_authz\<close> (module \<^verbatim>\<open>authz\<close>) is not in the
     source tree. Tenant/Authz Resolver: \<^verbatim>\<open>authz\<close> is the map from \<^verbatim>\<open>*\<close> to the resources of
     the global roles and from each tenant to the resources of the roles in that tenant,
     subtracting \<^verbatim>\<open>exclude_resources\<close>.\<close>
  "build_credentials_authz e credentials_id tenants exclude_resources =
     (''*'', filter (\<lambda>r. r \<notin> exclude_resources) (global_role_resources e credentials_id))
     # map (\<lambda>t. (t, filter (\<lambda>r. r \<notin> exclude_resources) (tenant_role_resources e credentials_id t)))
         (case tenants of None \<Rightarrow> [] | Some ts \<Rightarrow> ts)"

definition TenantService_get_tenants :: "services \<Rightarrow> string \<Rightarrow> py_exn + string list" where
  \<comment> \<open>tenant/service.py: asserts that a provider is configured, then collects the tenant of
     every assignment the provider yields\<close>
  "TenantService_get_tenants e credentials_id =
     (case TenantsProvider e of
        None \<Rightarrow> Inl AssertionError
      | Some iterate_assigned \<Rightarrow> Inr (iterate_assigned credentials_id))"

definition authz_session_builder ::
  "services \<Rightarrow> string \<Rightarrow> string list option \<Rightarrow> string set \<Rightarrow> py_exn + builder_item list" where
  \<comment> \<open>Modelled from the spec: \<^verbatim>\<open>authz_session_builder\<close> (module \<^verbatim>\<open>session\<close>) is not in the
     source tree. Tenant/Authz Resolver, \<^verbatim>\<open>resolve(credentials_id, requested_tenants?,
     exclude_resources)\<close>: the assigned tenants and the authz map.\<close>
  "authz_session_builder e credentials_id tenants exclude_resources =
     (case TenantService_get_tenants e credentials_id of
        Inl x \<Rightarrow> Inl x
      | Inr assigned \<Rightarrow>
          Inr [Set_Authorization_AssignedTenants assigned,
               Set_Authorization_Authz
                 (build_credentials_authz e credentials_id tenants exclude_resources)])"

definition oauth2_session_builder ::
  "string \<Rightarrow> string list \<Rightarrow> pyval option \<Rightarrow> pyval option \<Rightarrow> builder_item list" where
  \<comment> \<open>Modelled from the spec: \<^verbatim>\<open>oauth2_session_builder\<close> (openidconnect/session.py) is not
     in the source tree. Session, \<^verbatim>\<open>oauth2\<close> = client id, scope, nonce, redirect URI.\<close>
  "oauth2_session_builder client_id scope nonce redirect_uri =
     [Set_OAuth2_ClientId client_id, Set_OAuth2_Scope scope,
      Set_OAuth2_Nonce nonce, Set_OAuth2_RedirectUri redirect_uri]"

section \<open>OpenID Connect service (openidconnect/service.py)\<close>

definition exclude_resources_for :: "session \<Rightarrow> string set" where
  \<comment> \<open>the test at the head of \<^verbatim>\<open>create_oidc_session\<close> and inside \<^verbatim>\<open>refresh_session\<close>\<close>
  "exclude_resources_for root_session =
     (if Authentication_ImpersonatorSessionId root_session \<noteq> None
      then {''authz:superuser'', ''authz:impersonate''} else {})"

definition wants_authn_info :: "string list \<Rightarrow> bool" where
  "wants_authn_info scope \<longleftrightarrow>
     ''profile'' \<in> set scope \<or> ''userinfo:authn'' \<in> set scope \<or> ''userinfo:*'' \<in> set scope"

text \<open>
  The Batman builder: \<^verbatim>\<open>base64.b64encode("{}:{}".format(username, password).encode("ascii"))\<close>.
  A missing username formats as \<^verbatim>\<open>None\<close>; text outside ASCII raises a ValueError.
\<close>

definition batman_builder :: "services \<Rightarrow> session \<Rightarrow> py_exn + builder_item list" where
  "batman_builder e root_session =
     (let password = generate_password e (Credentials_Id root_session);
          username = (case Credentials_Username root_session of None \<Rightarrow> ''None'' | Some u \<Rightarrow> u)
      in case b64encode_ascii e (username @ '':'' @ password) of
           None \<Rightarrow> Inl ValueError
         | Some basic_auth \<Rightarrow> Inr [Set_Batman_Token basic_auth])"

text \<open>
  \<^verbatim>\<open>create_oidc_session(root_session, client_id, scope, nonce=None, redirect_uri=None,
  tenants=None, requested_expiration=None)\<close>.
\<close>

definition create_oidc_session ::
  "services \<Rightarrow> store \<Rightarrow> session \<Rightarrow> string \<Rightarrow> string list \<Rightarrow> pyval option \<Rightarrow> pyval option
     \<Rightarrow> string list option \<Rightarrow> int option \<Rightarrow> py_exn + session \<times> store" where
  "create_oidc_session e st root_session client_id scope nonce redirect_uri tenants requested_expiration =
     (let exclude_resources = exclude_resources_for root_session
      in case authz_session_builder e (Credentials_Id root_session) tenants exclude_resources of
           Inl x \<Rightarrow> Inl x
         | Inr authz_builder \<Rightarrow>
             let session_builders =
                   [credentials_session_builder e (Credentials_Id root_session) scope, authz_builder];
                 session_builders =
                   (if wants_authn_info scope
                    then session_builders @
                      [[Set_Authentication_LoginDescriptor (Authentication_LoginDescriptor root_session),
                        Set_Authentication_LoginFactors (Authentication_LoginFactors root_session),
                        Set_Authentication_AvailableFactors
                          (get_eligible_factors e (Credentials_Id root_session)),
                        Set_Authentication_ExternalLoginOptions
                          (external_login_list e (Credentials_Id root_session))]]
                    else session_builders)
             in case (if ''batman'' \<in> set scope then batman_builder e root_session else Inr []) of
                  Inl x \<Rightarrow> Inl x
                | Inr batman \<Rightarrow>
                    let session_builders =
                          (if ''batman'' \<in> set scope then session_builders @ [batman]
                           else session_builders);
                        session_builders =
                          session_builders @ [oauth2_session_builder client_id scope nonce redirect_uri];
                        session_builders =
                          (case TrackId root_session of
                             Some track_id \<Rightarrow> session_builders @ [[Set_Session_TrackId track_id]]
                           | None \<Rightarrow> session_builders);
                        session_builders =
                          (if Authentication_ImpersonatorSessionId root_session \<noteq> None
                           then session_builders @
                             [[Set_Authentication_ImpersonatorSessionId
                                 (Authentication_ImpersonatorSessionId root_session),
                               Set_Authentication_ImpersonatorCredentialsId
                                 (Authentication_ImpersonatorCredentialsId root_session)]]
                           else session_builders)
                    in Inr (SessionService_create_session e st ''openidconnect''
                              (Some (SessionId root_session)) requested_expiration session_builders))"

text \<open>
  \<^verbatim>\<open>get_accessible_tenant_from_scope\<close>: the three tenant errors become AccessDeniedError;
  otherwise an element popped from the set of tenants (the head of the list the parameter
  returns), or \<^verbatim>\<open>None\<close> for an empty set.
\<close>

definition get_accessible_tenant_from_scope ::
  "services \<Rightarrow> string list \<Rightarrow> string \<Rightarrow> bool \<Rightarrow> py_exn + string option" where
  "get_accessible_tenant_from_scope e scope credentials_id has_access_to_all_tenants =
     (case get_tenants_by_scope e scope credentials_id has_access_to_all_tenants of
        Inl _ \<Rightarrow> Inl AccessDeniedError
      | Inr tenants \<Rightarrow> (case tenants of [] \<Rightarrow> Inr None | t # _ \<Rightarrow> Inr (Some t)))"

text \<open>
  \<^verbatim>\<open>refresh_session(session, requested_scope=None)\<close>. A requested scope is turned into a
  set first (\<open>remdups\<close>). \<^verbatim>\<open>[authorized_tenant] if authorized_tenant else None\<close> tests the
  truth of the tenant name, so an empty name counts as no tenant. A session without a
  granted scope cannot be refreshed: the set difference or, without a requested scope, the
  membership tests on the scope raise a TypeError; nothing is stored before that, and the
  model raises it at once.
\<close>

definition refresh_session ::
  "services \<Rightarrow> store \<Rightarrow> session \<Rightarrow> string list option \<Rightarrow> py_exn + session \<times> store" where
  "refresh_session e st session requested_scope =
     (case (case Session_ParentSessionId session of
              None \<Rightarrow> Inl KeyError
            | Some parent \<Rightarrow> SessionService_get st parent) of
        Inl x \<Rightarrow> Inl x
      | Inr root_session \<Rightarrow>
          (case (case requested_scope of
                   Some requested \<Rightarrow>
                     (case OAuth2_Scope session of
                        None \<Rightarrow> Inl TypeError
                      | Some granted \<Rightarrow>
                          if length (filter (\<lambda>r. r \<notin> set granted) (remdups requested)) > 0
                          then Inl AccessDeniedError
                          else Inr (Some (remdups requested)))
                 | None \<Rightarrow> Inr (OAuth2_Scope session)) of
             Inl x \<Rightarrow> Inl x
           | Inr None \<Rightarrow> Inl TypeError
           | Inr (Some granted_scope) \<Rightarrow>
               let exclude_resources = exclude_resources_for root_session;
                   authz = build_credentials_authz e (Credentials_Id root_session) None exclude_resources
               in case get_accessible_tenant_from_scope e granted_scope (Credentials_Id root_session)
                         (can_access_all_tenants e authz) of
                    Inl x \<Rightarrow> Inl x
                  | Inr authorized_tenant \<Rightarrow>
                      (case authz_session_builder e (Credentials_Id root_session)
                              (case authorized_tenant of
                                 None \<Rightarrow> None
                               | Some t \<Rightarrow> if t = '''' then None else Some [t])
                              exclude_resources of
                         Inl x \<Rightarrow> Inl x
                       | Inr authz_builder \<Rightarrow>
                           let session_builders =
                                 [credentials_session_builder e (Credentials_Id root_session)
                                    (case OAuth2_Scope session of Some sc \<Rightarrow> sc | None \<Rightarrow> []),
                                  authz_builder];
                               session_builders =
                                 (if wants_authn_info granted_scope
                                  then session_builders @
                                    [[Set_Authentication_AvailableFactors
                                        (get_eligible_factors e (Credentials_Id root_session)),
                                      Set_Authentication_ExternalLoginOptions
                                        (external_login_list e (Credentials_Id root_session))]]
                                  else session_builders)
                           in case (if ''batman'' \<in> set granted_scope
                                    then batman_builder e root_session else Inr []) of
                                Inl x \<Rightarrow> Inl x
                              | Inr batman \<Rightarrow>
                                  let session_builders =
                                        (if ''batman'' \<in> set granted_scope
                                         then session_builders @ [batman] else session_builders);
                                      session_builders =
                                        session_builders @ [[Set_OAuth2_Scope granted_scope]]
                                  in SessionService_update_session st (SessionId session)
                                       session_builders)))"

text \<open>
  Reading the result: whether a builder item writes the authz map, and whether some entry
  of a session's authz map holds a resource.
\<close>

fun is_authz :: "builder_item \<Rightarrow> bool" where
  "is_authz (Set_Authorization_Authz v) = True"
| "is_authz _ = False"

definition carries :: "session \<Rightarrow> string \<Rightarrow> bool" where
  "carries s r = (case Authorization_Authz s of
                    None \<Rightarrow> False
                  | Some a \<Rightarrow> list_ex (\<lambda>(k, rs). r \<in> set rs) a)"

section \<open>Authorize handler (openidconnect/handler/authorize.py)\<close>

subsection \<open>String helpers and URL encoding\<close>

text \<open>
  Strings are byte strings: a text outside ASCII is its UTF-8 encoding, which is what
  \<^verbatim>\<open>urllib.parse.quote\<close> percent-encodes. \<open>join\<close> is \<^verbatim>\<open>sep.join(xs)\<close>.
\<close>

fun join :: "string \<Rightarrow> string list \<Rightarrow> string" where
  "join sep [] = []"
| "join sep [x] = x"
| "join sep (x # y # ys) = x @ sep @ join sep (y # ys)"

definition always_safe :: "char \<Rightarrow> bool" where
  "always_safe c \<longleftrightarrow>
     c \<in> set ''ABCDEFGHIJKLMNOPQRSTUVWXYZabcdefghijklmnopqrstuvwxyz0123456789_.-~''"

definition hexdigit :: "nat \<Rightarrow> char" where
  "hexdigit n = ''0123456789ABCDEF'' ! n"

definition percent_encode :: "char \<Rightarrow> string" where
  "percent_encode c =
     [CHR ''%'', hexdigit ((of_char c :: nat) div 16), hexdigit ((of_char c :: nat) mod 16)]"

definition quote :: "string \<Rightarrow> string \<Rightarrow> string" where
  \<comment> \<open>\<^verbatim>\<open>quote(s, safe)\<close>; the default of \<^verbatim>\<open>safe\<close> is \<^verbatim>\<open>/\<close>\<close>
  "quote safe s =
     concat (map (\<lambda>c. if always_safe c \<or> c \<in> set safe then [c] else percent_encode c) s)"

definition quote_plus :: "string \<Rightarrow> string" where
  \<comment> \<open>\<^verbatim>\<open>quote_plus(s)\<close>: nothing but the always-safe characters is kept, a space becomes \<^verbatim>\<open>+\<close>\<close>
  "quote_plus s = map (\<lambda>c. if c = CHR '' '' then CHR ''+'' else c) (quote '' '' s)"

definition urlencode :: "(string \<times> string) list \<Rightarrow> string" where
  "urlencode qs = join ''&'' (map (\<lambda>(k, v). quote_plus k @ ''='' @ quote_plus v) qs)"

definition urlencode_doseq :: "(string \<times> string list) list \<Rightarrow> string" where
  \<comment> \<open>\<^verbatim>\<open>urlencode(d, doseq=True)\<close> on a dictionary of lists; a plain string value is the list
     of that one string\<close>
  "urlencode_doseq qs =
     join ''&'' (concat (map (\<lambda>(k, vs). map (\<lambda>v. quote_plus k @ ''='' @ quote_plus v) vs) qs))"

subsection \<open>The handler object and the request\<close>

record handler =
  PublicApiBaseUrl :: string
  AuthWebuiBaseUrl :: string

definition AuthorizePath :: string where "AuthorizePath = ''/openidconnect/authorize''"
definition LoginPath :: string where "LoginPath = ''/#/login''"
definition HomePath :: string where "HomePath = ''/#/''"

definition strip_slash :: "string \<Rightarrow> string" where
  "strip_slash u = (if u \<noteq> [] \<and> last u = CHR ''/'' then butlast u else u)"

definition AuthorizeHandler_init :: "string \<Rightarrow> string \<Rightarrow> handler" where
  "AuthorizeHandler_init public_api_base_url auth_webui_base_url =
     \<lparr>PublicApiBaseUrl = strip_slash public_api_base_url,
      AuthWebuiBaseUrl = strip_slash auth_webui_base_url\<rparr>"

text \<open>
  Of the request object the handler reads the session that the cookie resolved to
  (\<^verbatim>\<open>request.Session\<close>). \<open>Repr\<close> and \<open>Parameters_Repr\<close> are \<^verbatim>\<open>str(request)\<close> and
  \<^verbatim>\<open>str(request_parameters)\<close>, which is what \<^verbatim>\<open>urlencode\<close> makes of a value that is not a
  string.
\<close>

record request =
  Session :: "session option"
  Repr :: string
  Parameters_Repr :: string

subsection \<open>Replies\<close>

text \<open>
  \<^verbatim>\<open>reply_with_authentication_error(error, redirect_uri, error_description=None,
  error_uri=None, state=None)\<close>: always an \<^verbatim>\<open>HTTPFound\<close>, to the redirect URI when one is
  given and to the server's own authorize path otherwise.
\<close>

definition reply_with_authentication_error ::
  "handler \<Rightarrow> services \<Rightarrow> string \<Rightarrow> string option \<Rightarrow> string option \<Rightarrow> string option
     \<Rightarrow> string option \<Rightarrow> response" where
  "reply_with_authentication_error h e error redirect_uri error_description error_uri state =
     (let qs = [(''error'', error)]
               @ (case error_description of Some d \<Rightarrow> [(''error_description'', d)] | None \<Rightarrow> [])
               @ (case error_uri of Some u \<Rightarrow> [(''error_uri'', u)] | None \<Rightarrow> [])
               @ (case state of Some s \<Rightarrow> [(''state'', s)] | None \<Rightarrow> []);
          response_qs = urlencode qs;
          redirect =
            (case redirect_uri of
               Some uri \<Rightarrow>
                 let redirect_uri_qs = query (urlparse e uri);
                     response_qs' = (if length redirect_uri_qs > 0
                                     then redirect_uri_qs @ ''&'' @ response_qs else response_qs)
                 in uri @ ''?'' @ response_qs'
             | None \<Rightarrow> PublicApiBaseUrl h @ AuthorizePath @ ''?'' @ response_qs)
      in \<lparr>status = 302, headers = [(''Location'', redirect)], cookie = CookieUntouched\<rparr>)"

definition found_headers :: "string \<Rightarrow> (string \<times> string) list" where
  \<comment> \<open>\<^verbatim>\<open>HTTPFound(url, headers={"Refresh": "0;url=" + url})\<close>: the constructor adds Location\<close>
  "found_headers url = [(''Refresh'', ''0;url='' @ url), (''Location'', url)]"

text \<open>
  \<^verbatim>\<open>generate_authorization_code\<close>, called by the successful response, and the audit
  appends.
\<close>

definition generate_authorization_code :: "services \<Rightarrow> store \<Rightarrow> nat \<Rightarrow> string \<Rightarrow> string \<times> store" where
  \<comment> \<open>Modelled from the spec: the handler calls \<^verbatim>\<open>generate_authorization_code(session_id)\<close>,
     which openidconnect/service.py does not define (it has \<^verbatim>\<open>create_authorization_code\<close>
     with a session argument). Authorize: mint an authorization code bound to that session;
     Token Store, \<^verbatim>\<open>create\<close>: random bytes are persisted with type \<^verbatim>\<open>oac\<close>, the session id
     and an expiry, and handed out once. The value handed out is the URL-safe Base64 text of
     the bytes, as \<^verbatim>\<open>create_authorization_code\<close> returns it.\<close>
  "generate_authorization_code e st now session_id =
     (let token_bytes = new_token_bytes e st
      in (urlsafe_b64encode e token_bytes,
          st\<lparr>tokens := (tokens st)(token_bytes \<mapsto>
                \<lparr>token_type = ''oac'', token_sid = session_id,
                 token_expires_at = now + AuthorizationCode_Expiration e\<rparr>)\<rparr>))"

definition audit_authorize_error :: "store \<Rightarrow> string \<Rightarrow> string \<Rightarrow> string option \<Rightarrow> store" where
  "audit_authorize_error st client_id error credential_id =
     st\<lparr>audit := audit st @ [AUTHORIZE_ERROR client_id error credential_id]\<rparr>"

definition audit_authorize_success :: "store \<Rightarrow> session \<Rightarrow> py_exn + store" where
  "audit_authorize_success st session =
     (case Authorization_Authz session of
        None \<Rightarrow> Inl TypeError
      | Some a \<Rightarrow>
          Inr (st\<lparr>audit := audit st @
                 [AUTHORIZE_SUCCESS (Credentials_Id session) (filter (\<lambda>t. t \<noteq> ''*'') (map fst a))
                    (OAuth2_ClientId session) (OAuth2_Scope session)]\<rparr>))"

text \<open>
  \<^verbatim>\<open>reply_with_successful_response(session, scope, redirect_uri, state=None)\<close>. The query
  dictionary of the redirect URI receives the state and, unless \<^verbatim>\<open>cookie\<close> is in scope, a
  freshly generated code; with \<^verbatim>\<open>cookie\<close> in scope the session cookie is set instead.
  \<open>success_query\<close> is the dictionary \<^verbatim>\<open>url_qs\<close> as it is encoded.
\<close>

definition success_query ::
  "services \<Rightarrow> string \<Rightarrow> string option \<Rightarrow> string option \<Rightarrow> (string \<times> string list) list" where
  "success_query e redirect_uri state code =
     (let url_qs = parse_qs e (query (urlparse e redirect_uri));
          url_qs = (case state of Some s \<Rightarrow> AList.update ''state'' [s] url_qs | None \<Rightarrow> url_qs)
      in case code of Some c \<Rightarrow> AList.update ''code'' [c] url_qs | None \<Rightarrow> url_qs)"

definition reply_with_successful_response ::
  "services \<Rightarrow> store \<Rightarrow> nat \<Rightarrow> session \<Rightarrow> string list \<Rightarrow> string \<Rightarrow> string option
     \<Rightarrow> response \<times> store" where
  "reply_with_successful_response e st now session scope redirect_uri state =
     (let (code, st') =
            (if ''cookie'' \<notin> set scope
             then (let (c, st1) = generate_authorization_code e st now (SessionId session)
                   in (Some c, st1))
             else (None, st));
          url = (urlparse e redirect_uri)\<lparr>query := urlencode_doseq (success_query e redirect_uri state code)\<rparr>;
          url = urlunparse e url
      in (\<lparr>status = 302, headers = found_headers url,
           cookie = (if ''cookie'' \<in> set scope then CookieSet (SessionId session)
                     else CookieUntouched)\<rparr>,
          st'))"

text \<open>
  \<^verbatim>\<open>reply_with_redirect_to_login\<close>: 404 with the link to the login form, which leads back
  to the authorize endpoint; the session cookie is deleted.
\<close>

definition authorize_query_params ::
  "string \<Rightarrow> string list \<Rightarrow> string \<Rightarrow> string \<Rightarrow> string option \<Rightarrow> (string \<times> string) list" where
  "authorize_query_params response_type scope client_id redirect_uri state =
     [(''response_type'', response_type), (''scope'', join '' '' scope),
      (''client_id'', client_id), (''redirect_uri'', redirect_uri)]
     @ (case state of Some s \<Rightarrow> [(''state'', s)] | None \<Rightarrow> [])"

definition reply_with_redirect_to_login ::
  "handler \<Rightarrow> string \<Rightarrow> string list \<Rightarrow> string \<Rightarrow> string \<Rightarrow> string option
     \<Rightarrow> (string \<times> string) list \<Rightarrow> response" where
  "reply_with_redirect_to_login h response_type scope client_id redirect_uri state login_parameters =
     (let authorize_redirect_uri =
            PublicApiBaseUrl h @ AuthorizePath @ ''?''
            @ urlencode (authorize_query_params response_type scope client_id redirect_uri state);
          login_query_params = login_parameters @ [(''redirect_uri'', authorize_redirect_uri)];
          login_url = AuthWebuiBaseUrl h @ LoginPath @ ''?'' @ urlencode login_query_params
      in \<lparr>status = 404,
          headers = [(''Location'', login_url), (''Refresh'', ''0;url='' @ login_url)],
          cookie = CookieDeleted\<rparr>)"

text \<open>
  \<^verbatim>\<open>reply_with_factor_setup_redirect\<close>: the home screen of the web UI, with the factors
  to set up and the way back (an authorize URL with \<^verbatim>\<open>prompt=login\<close>, quoted once more) in
  the fragment. \<^verbatim>\<open>urlunparse\<close> is given \<^verbatim>\<open>None\<close> for the query, which it treats as empty.
\<close>

definition factor_setup_return_uri ::
  "handler \<Rightarrow> string \<Rightarrow> string list \<Rightarrow> string \<Rightarrow> string \<Rightarrow> string option \<Rightarrow> string" where
  "factor_setup_return_uri h response_type scope client_id redirect_uri state =
     PublicApiBaseUrl h @ AuthorizePath @ ''?''
     @ urlencode ((''prompt'', ''login'')
                  # authorize_query_params response_type scope client_id redirect_uri state)"

definition reply_with_factor_setup_redirect ::
  "handler \<Rightarrow> services \<Rightarrow> session \<Rightarrow> string list \<Rightarrow> string \<Rightarrow> string list \<Rightarrow> string \<Rightarrow> string
     \<Rightarrow> string option \<Rightarrow> response" where
  "reply_with_factor_setup_redirect h e session missing_factors response_type scope client_id
       redirect_uri state =
     (let sfa_url = urlparse e (AuthWebuiBaseUrl h @ HomePath);
          authorize_redirect_uri =
            factor_setup_return_uri h response_type scope client_id redirect_uri state;
          auth_url_params = [(''setup'', join '' '' missing_factors),
                             (''redirect_uri'', quote ''/'' authorize_redirect_uri)];
          fragment' = fragment sfa_url @ ''?'' @ urlencode auth_url_params;
          sfa_url' = urlunparse e (sfa_url\<lparr>query := '''', fragment := fragment'\<rparr>)
      in \<lparr>status = 302, headers = found_headers sfa_url',
          cookie = (if ''cookie'' \<in> set scope then CookieSet (SessionId session)
                    else CookieUntouched)\<rparr>)"

subsection \<open>The factor-setup gate\<close>

text \<open>
  \<^verbatim>\<open>_get_factors_to_setup\<close>. The globally enforced factors lose the type of every factor
  of the login descriptor (\<^verbatim>\<open>list.remove\<close>, the first occurrence); the factors enforced on
  the credentials are then appended where not yet present. The credentials' factors pass
  through a Python set, whose iteration order is not fixed: \<open>remdups\<close> picks one order.
  Without a login descriptor the loop over its factors raises a TypeError; unknown
  credentials are a KeyError.
\<close>

definition get_factors_to_setup :: "services \<Rightarrow> session \<Rightarrow> py_exn + string list" where
  "get_factors_to_setup e session =
     (case (case EnforceFactors e of
              None \<Rightarrow> Inr []
            | Some enforced \<Rightarrow>
                (case Authentication_LoginDescriptor session of
                   None \<Rightarrow> Inl TypeError
                 | Some factors \<Rightarrow>
                     Inr (foldl (\<lambda>fs t. if t \<in> set fs then remove1 t fs else fs) enforced factors))) of
        Inl x \<Rightarrow> Inl x
      | Inr factors_to_setup \<Rightarrow>
          (case CredentialsService_get e (Credentials_Id session) of
             None \<Rightarrow> Inl KeyError
           | Some credentials \<Rightarrow>
               let cred_enforce_factors =
                     remdups (case enforce_factors credentials of None \<Rightarrow> [] | Some fs \<Rightarrow> fs)
               in Inr (foldl (\<lambda>fs f. if f \<notin> set fs then fs @ [f] else fs)
                         factors_to_setup cred_enforce_factors)))"

text \<open>
  The formula of the specification, for comparison: the union of the globally enforced
  and the credential-enforced factors, minus the factors satisfied by the current
  authentication.
\<close>

definition spec_factors_to_setup :: "services \<Rightarrow> session \<Rightarrow> credentials \<Rightarrow> string set" where
  "spec_factors_to_setup e session creds =
     (set (case EnforceFactors e of None \<Rightarrow> [] | Some fs \<Rightarrow> fs)
      \<union> set (case enforce_factors creds of None \<Rightarrow> [] | Some fs \<Rightarrow> fs))
     - set (case Authentication_LoginDescriptor session of None \<Rightarrow> [] | Some fs \<Rightarrow> fs)"

subsection \<open>Tenant scope\<close>

text \<open>
  The loop over the scope in \<^verbatim>\<open>authentication_code_flow\<close>. It stops at the first tenant
  that is neither assigned nor reachable; the result is then the error code written to
  the audit log together with the tenant, and otherwise the set of tenants collected.
\<close>

fun tenant_scope_loop ::
  "services \<Rightarrow> string list \<Rightarrow> bool \<Rightarrow> string list \<Rightarrow> string set \<Rightarrow> (string \<times> string) + string set" where
  "tenant_scope_loop e user_tenants user_has_access_to_all_tenants [] tenants = Inr tenants"
| "tenant_scope_loop e user_tenants user_has_access_to_all_tenants (resource # rest) tenants =
     (if \<not> prefix ''tenant:'' resource
      then tenant_scope_loop e user_tenants user_has_access_to_all_tenants rest tenants
      else
        let tenant = drop (length ''tenant:'') resource
        in if tenant = ''*''
           then tenant_scope_loop e user_tenants user_has_access_to_all_tenants rest
                  (tenants \<union> set user_tenants)
           else if tenant \<in> set user_tenants
           then tenant_scope_loop e user_tenants user_has_access_to_all_tenants rest
                  (insert tenant tenants)
           else if user_has_access_to_all_tenants
           then (if get_tenant e tenant
                 then tenant_scope_loop e user_tenants user_has_access_to_all_tenants rest
                        (insert tenant tenants)
                 else Inl (''tenant_not_found'', tenant))
           else Inl (''unauthorized_tenant'', tenant))"

definition user_has_access_to_all_tenants :: "services \<Rightarrow> session \<Rightarrow> bool" where
  "user_has_access_to_all_tenants e root_session \<longleftrightarrow>
     has_resource_access e (Authorization_Authz root_session) None [''authz:superuser'']
     \<or> has_resource_access e (Authorization_Authz root_session) None [''authz:tenant:access'']"

text \<open>
  The block for a bare \<^verbatim>\<open>tenant\<close> in scope when no tenant was collected: the last
  authorized tenant that is still assigned, else the first assigned tenant, else nothing
  (\<^verbatim>\<open>user_has_no_tenant\<close>).
\<close>

definition default_tenant ::
  "services \<Rightarrow> string \<Rightarrow> string list \<Rightarrow> string list \<Rightarrow> string set \<Rightarrow> string set option" where
  "default_tenant e credentials_id user_tenants scope tenants =
     (if tenants = {} \<and> ''tenant'' \<in> set scope
      then (case filter (\<lambda>t. t \<in> set user_tenants) (get_last_authorized_tenants e credentials_id) of
              t # _ \<Rightarrow> Some (insert t tenants)
            | [] \<Rightarrow> (case user_tenants of
                       t # _ \<Rightarrow> Some (insert t tenants)
                     | [] \<Rightarrow> None))
      else Some tenants)"

subsection \<open>The authorization code flow\<close>

text \<open>
  The part of \<^verbatim>\<open>authentication_code_flow\<close> after the comment \<^verbatim>\<open>We are authenticated!\<close>.
  The call \<^verbatim>\<open>create_oidc_session(root_session, client_id, scope, tenants,
  requested_expiration)\<close> is positional: the set of tenants arrives in the \<^verbatim>\<open>nonce\<close>
  parameter and the expiration in \<^verbatim>\<open>redirect_uri\<close>, while \<^verbatim>\<open>tenants\<close> and
  \<^verbatim>\<open>requested_expiration\<close> keep their default \<^verbatim>\<open>None\<close>.
\<close>

definition authenticated_code_flow ::
  "handler \<Rightarrow> services \<Rightarrow> store \<Rightarrow> nat \<Rightarrow> session \<Rightarrow> string list \<Rightarrow> string \<Rightarrow> string
     \<Rightarrow> string option \<Rightarrow> (string \<times> string) list \<Rightarrow> (py_exn + response) \<times> store" where
  "authenticated_code_flow h e st now root_session scope client_id redirect_uri state login_parameters =
     (case TenantService_get_tenants e (Credentials_Id root_session) of
        Inl x \<Rightarrow> (Inl x, st)
      | Inr user_tenants \<Rightarrow>
          (case tenant_scope_loop e user_tenants (user_has_access_to_all_tenants e root_session)
                  scope {} of
             Inl (audit_error, tenant) \<Rightarrow>
               (Inr (reply_with_authentication_error h e ''unauthorized_tenant'' (Some redirect_uri)
                       (Some (''Unauthorized tenant: '' @ tenant)) None state),
                audit_authorize_error st client_id audit_error (Some (Credentials_Id root_session)))
           | Inr tenants \<Rightarrow>
               (case default_tenant e (Credentials_Id root_session) user_tenants scope tenants of
                  None \<Rightarrow>
                    (Inr (reply_with_authentication_error h e ''user_has_no_tenant''
                            (Some redirect_uri) (Some ''User has no tenant.'') None state),
                     audit_authorize_error st client_id ''user_has_no_tenant''
                       (Some (Credentials_Id root_session)))
                | Some tenants \<Rightarrow>
                    (case get_factors_to_setup e root_session of
                       Inl x \<Rightarrow> (Inl x, st)
                     | Inr factors_to_setup \<Rightarrow>
                         if length factors_to_setup > 0
                         then (Inr (reply_with_factor_setup_redirect h e root_session factors_to_setup
                                      ''code'' scope client_id redirect_uri state),
                               st)
                         else
                           (case (case map_of login_parameters ''expiration'' of
                                    None \<Rightarrow> Inr None
                                  | Some v \<Rightarrow> (case parse_int e v of
                                                None \<Rightarrow> Inl ValueError
                                              | Some n \<Rightarrow> Inr (Some n))) of
                              Inl x \<Rightarrow> (Inl x, st)
                            | Inr requested_expiration \<Rightarrow>
                                (case create_oidc_session e st root_session client_id scope
                                        (Some (PyStrSet tenants))
                                        (map_option PyInt requested_expiration) None None of
                                   Inl x \<Rightarrow> (Inl x, st)
                                 | Inr (session, st1) \<Rightarrow>
                                     (case audit_authorize_success st1 session of
                                        Inl x \<Rightarrow> (Inl x, st1)
                                      | Inr st2 \<Rightarrow>
                                          let (r, st3) = reply_with_successful_response e st2 now
                                                           session scope redirect_uri state
                                          in (Inr r, st3))))))))"

text \<open>
  \<^verbatim>\<open>authentication_code_flow\<close>: the client check (the \<^verbatim>\<open>try\<close> statement with its four
  \<^verbatim>\<open>except\<close> clauses, in their order), and what follows it up to the decision between
  error, login and the authenticated part. \<^verbatim>\<open>KeyError\<close>, \<^verbatim>\<open>InvalidClientSecret\<close> and \<^verbatim>\<open>ClientError\<close> of the
  client check are logged and the flow goes on; \<^verbatim>\<open>InvalidRedirectURI\<close> ends it; any other
  exception is not caught. The call for \<^verbatim>\<open>login_required\<close> passes
  \<^verbatim>\<open>(request, "login_required", redirect_uri, state=state)\<close>, so the request lands in
  \<^verbatim>\<open>error\<close>, the text \<^verbatim>\<open>login_required\<close> in \<^verbatim>\<open>redirect_uri\<close> and the redirect URI in
  \<^verbatim>\<open>error_description\<close>.
\<close>

definition code_flow_after_client_check ::
  "handler \<Rightarrow> services \<Rightarrow> store \<Rightarrow> nat \<Rightarrow> request \<Rightarrow> string list \<Rightarrow> string \<Rightarrow> string
     \<Rightarrow> string option \<Rightarrow> string option \<Rightarrow> (string \<times> string) list
     \<Rightarrow> (py_exn + response) \<times> store" where
  "code_flow_after_client_check h e st now request scope client_id redirect_uri state prompt
       login_parameters =
     (if ''openid'' \<notin> set scope
      then (Inr (reply_with_authentication_error h e ''invalid_scope'' (Some redirect_uri)
                   (Some (''Scope must contain '' @ [CHR 0x27] @ ''openid'' @ [CHR 0x27])) None state),
            audit_authorize_error st client_id ''invalid_scope'' None)
      else
        let root_session = (case Session request of
                              Some s \<Rightarrow> if Session_Type s \<noteq> ''root'' then None else Some s
                            | None \<Rightarrow> None)
        in if prompt \<notin> {None, Some ''none'', Some ''login'', Some ''select_account''}
           then (Inr (reply_with_authentication_error h e ''invalid_request'' (Some redirect_uri)
                        (Some (''Invalid parameter value for prompt: ''
                               @ (case prompt of Some p \<Rightarrow> p | None \<Rightarrow> ''None'')))
                        None state),
                 audit_authorize_error st client_id ''invalid_request'' None)
           else
             let (root_session, st) =
                   (if prompt = Some ''login''
                    then (case root_session of
                            Some s \<Rightarrow> (None, SessionService_delete st (SessionId s))
                          | None \<Rightarrow> (None, st))
                    else (root_session, st))
             in if root_session = None \<and> prompt = Some ''none''
                then (Inr (reply_with_authentication_error h e (Repr request)
                             (Some ''login_required'') (Some redirect_uri) None state),
                      audit_authorize_error st client_id ''login_required'' None)
                else
                  (case root_session of
                     None \<Rightarrow>
                       (Inr (reply_with_redirect_to_login h ''code'' scope client_id redirect_uri
                               state login_parameters),
                        st)
                   | Some root \<Rightarrow>
                       if prompt = Some ''select_account''
                       then (Inr (reply_with_redirect_to_login h ''code'' scope client_id
                                    redirect_uri state login_parameters),
                             st)
                       else authenticated_code_flow h e st now root scope client_id redirect_uri
                              state login_parameters))"

definition authentication_code_flow ::
  "handler \<Rightarrow> services \<Rightarrow> store \<Rightarrow> nat \<Rightarrow> request \<Rightarrow> string list \<Rightarrow> string \<Rightarrow> string
     \<Rightarrow> string option \<Rightarrow> string option \<Rightarrow> string option \<Rightarrow> (string \<times> string) list
     \<Rightarrow> (py_exn + response) \<times> store" where
  "authentication_code_flow h e st now request scope client_id redirect_uri client_secret state
       prompt login_parameters =
     (case authorize_client e client_id client_secret redirect_uri scope of
        None \<Rightarrow>
          code_flow_after_client_check h e st now request scope client_id redirect_uri state
            prompt login_parameters
      | Some x \<Rightarrow>
          if x = KeyError \<or> x = InvalidClientSecret
          then code_flow_after_client_check h e st now request scope client_id redirect_uri
                 state prompt login_parameters
          else if x = InvalidRedirectURI
          then (Inr (reply_with_authentication_error h e ''invalid_redirect_uri'' None
                       (Some ''redirect_uri is not valid for given client_id'') None state),
                audit_authorize_error st client_id ''invalid_redirect_uri'' None)
          else if x = ClientError
          then code_flow_after_client_check h e st now request scope client_id redirect_uri
                 state prompt login_parameters
          else (Inl x, st))"

text \<open>
  \<^verbatim>\<open>authorize\<close>: presence of the required parameters, the non-standard login parameters,
  and the dispatch on \<^verbatim>\<open>response_type\<close>. The required parameters are iterated as a
  \<^verbatim>\<open>frozenset\<close>; its order decides only which missing parameter the description names.
  Indexing the parameters raises a KeyError for a missing key, which the presence check
  rules out. The
  reply to an unknown response type is called with
  \<^verbatim>\<open>(request_parameters, "invalid_request", "Invalid response_type: ...")\<close>.
\<close>

definition required_parameters :: "string list" where
  "required_parameters = [''scope'', ''client_id'', ''response_type'', ''redirect_uri'']"

definition login_parameters_of :: "(string \<times> string) list \<Rightarrow> (string \<times> string) list" where
  \<comment> \<open>the non-standard parameters \<^verbatim>\<open>ldid\<close> and \<^verbatim>\<open>expiration\<close>, where present\<close>
  "login_parameters_of request_parameters =
     concat (map (\<lambda>p. case map_of request_parameters p of Some v \<Rightarrow> [(p, v)] | None \<Rightarrow> [])
               [''ldid'', ''expiration''])"

definition authorize ::
  "handler \<Rightarrow> services \<Rightarrow> store \<Rightarrow> nat \<Rightarrow> request \<Rightarrow> (string \<times> string) list
     \<Rightarrow> (py_exn + response) \<times> store" where
  "authorize h e st now request request_parameters =
     (let get = map_of request_parameters
      in case find (\<lambda>p. get p = None \<or> get p = Some '''') required_parameters of
           Some parameter \<Rightarrow>
             (Inr (reply_with_authentication_error h e ''invalid_request''
                     (case get ''redirect_uri'' of
                        Some u \<Rightarrow> if u = '''' then None else Some u
                      | None \<Rightarrow> None)
                     (Some (''Missing required parameter: '' @ parameter)) None (get ''state'')),
              st)
         | None \<Rightarrow>
             (case (get ''response_type'', get ''scope'', get ''client_id'', get ''redirect_uri'') of
                (Some response_type, Some scope_text, Some client_id, Some redirect_uri) \<Rightarrow>
                  let login_parameters = login_parameters_of request_parameters
                  in if response_type = ''code''
                     then authentication_code_flow h e st now request
                            (split_on CHR '' '' scope_text) client_id redirect_uri
                            (get ''client_secret'') (get ''state'') (get ''prompt'')
                            login_parameters
                     else (Inr (reply_with_authentication_error h e (Parameters_Repr request)
                                  (Some ''invalid_request'')
                                  (Some (''Invalid response_type: '' @ response_type)) None None),
                           audit_authorize_error st client_id ''invalid_response_type'' None)
              | _ \<Rightarrow> (Inl KeyError, st)))"

subsection \<open>Requests that reach the authenticated part\<close>

text \<open>
  \<open>code_request\<close>: the four required parameters are present and not empty and the response
  type is \<^verbatim>\<open>code\<close>. \<open>client_check_passes\<close>: the client check returns or raises one of the
  exceptions that the flow only logs. \<open>authenticated_with\<close>: the request carries a session of
  type \<^verbatim>\<open>root\<close> and the prompt is absent or \<^verbatim>\<open>none\<close> (\<^verbatim>\<open>login\<close> deletes the session,
  \<^verbatim>\<open>select_account\<close> sends the user to the login form).
\<close>

definition code_request :: "(string \<times> string) list \<Rightarrow> string \<Rightarrow> string \<Rightarrow> string \<Rightarrow> bool" where
  "code_request request_parameters client_id redirect_uri scope_text \<longleftrightarrow>
     map_of request_parameters ''response_type'' = Some ''code''
     \<and> map_of request_parameters ''client_id'' = Some client_id \<and> client_id \<noteq> []
     \<and> map_of request_parameters ''redirect_uri'' = Some redirect_uri \<and> redirect_uri \<noteq> []
     \<and> map_of request_parameters ''scope'' = Some scope_text \<and> scope_text \<noteq> []"

definition client_check_passes ::
  "services \<Rightarrow> (string \<times> string) list \<Rightarrow> string \<Rightarrow> string \<Rightarrow> string \<Rightarrow> bool" where
  "client_check_passes e request_parameters client_id redirect_uri scope_text \<longleftrightarrow>
     authorize_client e client_id (map_of request_parameters ''client_secret'') redirect_uri
       (split_on CHR '' '' scope_text)
     \<in> {None, Some KeyError, Some InvalidClientSecret, Some ClientError}"

definition authenticated_with :: "request \<Rightarrow> (string \<times> string) list \<Rightarrow> session \<Rightarrow> bool" where
  "authenticated_with request request_parameters root_session \<longleftrightarrow>
     Session request = Some root_session \<and> Session_Type root_session = ''root''
     \<and> map_of request_parameters ''prompt'' \<in> {None, Some ''none''}"


section \<open>Concrete scenarios\<close>

text \<open>A root session of user \<^verbatim>\<open>alice\<close>, logged in with a password, with one access token.\<close>

definition alice_root :: session where
  "alice_root =
     \<lparr>SessionId = ''root-1'', Session_Type = ''root'', Session_ParentSessionId = None,
      TrackId = None, Credentials_Id = ''mongodb:default:alice'',
      Credentials_Username = Some ''alice'',
      Authentication_LoginDescriptor = Some [''password''],
      Authentication_LoginFactors = Some [''password''],
      Authentication_AvailableFactors = None,
      Authentication_ExternalLoginOptions = None,
      Authentication_ImpersonatorSessionId = None,
      Authentication_ImpersonatorCredentialsId = None,
      Authorization_Authz = Some [(''*'', [])],
      Authorization_AssignedTenants = Some [],
      OAuth2_ClientId = None, OAuth2_Scope = None, OAuth2_Nonce = None,
      OAuth2_RedirectUri = None, OAuth2_AccessToken = Some ''dG9rZW4='',
      Batman_Token = None\<rparr>"

text \<open>
  The cookie service of the deployment: cookie name \<^verbatim>\<open>SeaCatSCI\<close>, root cookie domain
  \<^verbatim>\<open>auth.example\<close>, one application domain. The session cookie of \<^verbatim>\<open>alice\<close> has the id
  \<^verbatim>\<open>session\<close>, Base64 \<^verbatim>\<open>c2Vzc2lvbg==\<close>. Cookie strings are read in their plain form
  \<^verbatim>\<open>name=value\<close>, blanks in front skipped.
\<close>

definition SimpleCookie_get_example :: "string \<Rightarrow> string \<Rightarrow> string option" where
  "SimpleCookie_get_example cookie_string name =
     (let t = dropWhile (\<lambda>c. c = CHR '' '') cookie_string
      in if prefix (name @ ''='') t then Some (drop (length name + 1) t) else None)"

definition cookie_env_example :: cookie_env where
  "cookie_env_example =
     \<lparr>CookieName = ''SeaCatSCI'',
      RootCookieDomain = ''auth.example'',
      ApplicationCookieDomains = {''app1.example''},
      SimpleCookie_get = SimpleCookie_get_example,
      urlsafe_b64decode = (\<lambda>s. if s = ''c2Vzc2lvbg=='' then Some ''session'' else None),
      SessionService_get_by_cookie_id = (\<lambda>sci. if sci = ''session'' then Some alice_root else None),
      add_to_header = (\<lambda>hs add session. hs)\<rparr>"

text \<open>
  A directory where \<^verbatim>\<open>cn=bob\<close> has the password \<^verbatim>\<open>secret\<close> and the service account of
  the default configuration can bind.
\<close>

definition ldap_config_example :: ldap_config where
  "ldap_config_example =
     \<lparr>LdapUri = ''ldap://localhost:389/'',
      Config_username = ''cn=admin,dc=example,dc=org'', Config_password = ''admin'',
      Config_filter = ''(&(objectClass=inetOrgPerson)(cn=*))'',
      Config_network_timeout = Some 10,
      Config_tls_cafile = '''', Config_tls_require_cert = ''never'',
      Config_tls_protocol_min = '''', Config_tls_protocol_max = '''',
      Config_tls_cipher_suite = '''',
      decode_dn = (\<lambda>s. if s = ''Y249Ym9i'' then Some ''cn=bob'' else None),
      normalize_credentials = (\<lambda>dn entry. entry)\<rparr>"

definition ldap_server_example :: ldap_server where
  "ldap_server_example =
     \<lparr>simple_bind_s = (\<lambda>dn pw.
        if dn = ''cn=admin,dc=example,dc=org'' \<and> pw = Some ''admin'' then None
        else if dn = ''cn=bob'' \<and> pw = Some ''secret'' then None
        else Some INVALID_CREDENTIALS),
      search_s = (\<lambda>dn. if dn = ''cn=bob'' then Inr [(''cn=bob'', [(''cn'', [''bob''])])]
                         else Inl NO_SUCH_OBJECT)\<rparr>"

text \<open>
  A store with one access token that points to a session that is gone. Base64 decoding
  is a table for the one token value used.
\<close>

definition b64decode_example :: "string \<Rightarrow> string option" where
  "b64decode_example v = (if v = ''dG9rZW4='' then Some ''token'' else None)"

definition dangling_store :: store where
  "dangling_store =
     \<lparr>tokens = [''token'' \<mapsto> \<lparr>token_type = ''oat'', token_sid = ''oidc-7'', token_expires_at = 1000\<rparr>],
      sessions = Map.empty, audit = []\<rparr>"

text \<open>
  A deployment with one client \<^verbatim>\<open>app1\<close> registered for \<^verbatim>\<open>https://app1/cb\<close>, the tenants
  \<^verbatim>\<open>acme\<close> and \<^verbatim>\<open>globex\<close>, user \<^verbatim>\<open>alice\<close> assigned to \<^verbatim>\<open>acme\<close>, and an administrator whose
  global role grants \<^verbatim>\<open>authz:superuser\<close> and \<^verbatim>\<open>authz:impersonate\<close>. The library functions are
  given on the URLs that occur.
\<close>

definition star_resources :: "authz option \<Rightarrow> string list" where
  "star_resources a = (case a of None \<Rightarrow> [] | Some m \<Rightarrow> (case map_of m ''*'' of None \<Rightarrow> [] | Some rs \<Rightarrow> rs))"

definition urlparse_example :: "string \<Rightarrow> parsed_url" where
  "urlparse_example u =
     (if u = ''https://app1/cb''
      then \<lparr>scheme = ''https'', netloc = ''app1'', path = ''/cb'', params = '''', query = '''', fragment = ''''\<rparr>
      else if u = ''https://auth.example/auth/#/''
      then \<lparr>scheme = ''https'', netloc = ''auth.example'', path = ''/auth/'', params = '''', query = '''',
            fragment = ''/''\<rparr>
      else \<lparr>scheme = '''', netloc = '''', path = u, params = '''', query = '''', fragment = ''''\<rparr>)"

definition urlunparse_example :: "parsed_url \<Rightarrow> string" where
  "urlunparse_example u =
     (if scheme u = '''' then '''' else scheme u @ '':'')
     @ (if netloc u = '''' then '''' else ''//'' @ netloc u)
     @ path u
     @ (if params u = '''' then '''' else '';'' @ params u)
     @ (if query u = '''' then '''' else ''?'' @ query u)
     @ (if fragment u = '''' then '''' else ''#'' @ fragment u)"

definition services_example :: services where
  "services_example =
     \<lparr>authorize_client = (\<lambda>client_id client_secret redirect_uri scope.
         if client_id \<noteq> ''app1'' then Some KeyError
         else if redirect_uri \<noteq> ''https://app1/cb'' then Some InvalidRedirectURI
         else None),
      TenantsProvider = Some (\<lambda>cid. if cid = ''mongodb:default:alice'' then [''acme''] else []),
      get_tenant = (\<lambda>t. t = ''acme'' \<or> t = ''globex''),
      get_tenants_by_scope = (\<lambda>scope cid all. Inr []),
      has_resource_access = (\<lambda>a tenant requested. list_all (\<lambda>r. r \<in> set (star_resources a)) requested),
      can_access_all_tenants = (\<lambda>a. ''authz:superuser'' \<in> set (star_resources (Some a))),
      global_role_resources = (\<lambda>cid.
         if cid = ''mongodb:default:admin''
         then [''authz:superuser'', ''authz:impersonate'', ''seacat:access''] else []),
      tenant_role_resources = (\<lambda>cid t. []),
      get_last_authorized_tenants = (\<lambda>cid. []),
      EnforceFactors = None,
      get_eligible_factors = (\<lambda>cid. [''password'']),
      external_login_list = (\<lambda>cid. []),
      generate_password = (\<lambda>cid. ''pw''),
      CredentialsService_get = (\<lambda>cid. Some \<lparr>enforce_factors = None\<rparr>),
      credentials_session_builder = (\<lambda>cid scope. [Set_Credentials_Id cid]),
      new_session_id = (\<lambda>st. ''oidc-1''),
      new_token_bytes = (\<lambda>st. ''code-bytes''),
      AuthorizationCode_Expiration = 60,
      urlparse = urlparse_example,
      urlunparse = urlunparse_example,
      parse_qs = (\<lambda>q. []),
      parse_int = (\<lambda>s. if s = ''3600'' then Some 3600 else None),
      b64encode_ascii = (\<lambda>s. Some s),
      urlsafe_b64encode = (\<lambda>b. if b = ''code-bytes'' then ''Y29kZS1ieXRlcw=='' else b)\<rparr>"

text \<open>
  The administrator's root session as opened by an impersonator, and a child session of
  it in the store.
\<close>

definition impersonated_root :: session where
  "impersonated_root =
     alice_root\<lparr>SessionId := ''root-2'', Credentials_Id := ''mongodb:default:admin'',
                Credentials_Username := Some ''admin'',
                Authentication_ImpersonatorSessionId := Some ''root-9'',
                Authentication_ImpersonatorCredentialsId := Some ''mongodb:default:mallory''\<rparr>"

definition impersonated_child :: session where
  "impersonated_child =
     (blank_session ''oidc-2'' ''openidconnect'' (Some ''root-2''))
       \<lparr>Credentials_Id := ''mongodb:default:admin'', OAuth2_ClientId := Some ''app1'',
        OAuth2_Scope := Some [''openid'']\<rparr>"

definition impersonation_store :: store where
  "impersonation_store =
     \<lparr>tokens = Map.empty,
      sessions = [''root-2'' \<mapsto> impersonated_root, ''oidc-2'' \<mapsto> impersonated_child],
      audit = []\<rparr>"

text \<open>
  The handler of that deployment, an empty store, and requests to the authorize endpoint:
  without a session, and with the root session of \<^verbatim>\<open>alice\<close> or of the administrator.
\<close>

definition handler_example :: handler where
  "handler_example = AuthorizeHandler_init ''https://auth.example/api/'' ''https://auth.example/auth''"

definition empty_store :: store where
  "empty_store = \<lparr>tokens = Map.empty, sessions = Map.empty, audit = []\<rparr>"

definition anonymous_request :: request where
  "anonymous_request =
     \<lparr>Session = None, Repr = ''<Request GET /openidconnect/authorize >'',
      Parameters_Repr = ''<MultiDictProxy()>''\<rparr>"

definition alice_request :: request where
  "alice_request = anonymous_request\<lparr>Session := Some alice_root\<rparr>"

definition admin_root :: session where
  "admin_root =
     alice_root\<lparr>SessionId := ''root-3'', Credentials_Id := ''mongodb:default:admin'',
                Credentials_Username := Some ''admin'',
                Authorization_Authz := Some [(''*'', [''authz:superuser''])]\<rparr>"

definition admin_request :: request where
  "admin_request = anonymous_request\<lparr>Session := Some admin_root\<rparr>"

definition authorize_parameters :: "string \<Rightarrow> string \<Rightarrow> string \<Rightarrow> (string \<times> string) list" where
  "authorize_parameters client_id redirect_uri scope =
     [(''response_type'', ''code''), (''client_id'', client_id), (''redirect_uri'', redirect_uri),
      (''scope'', scope), (''state'', ''s1'')]"

text \<open>
  The same deployment where the credentials of \<^verbatim>\<open>alice\<close> enforce the factor \<^verbatim>\<open>totp\<close>, and a
  root session of hers that was opened with password and \<^verbatim>\<open>totp\<close>.
\<close>

definition totp_credentials :: credentials where
  "totp_credentials = \<lparr>enforce_factors = Some [''totp'']\<rparr>"

definition totp_services :: services where
  "totp_services = services_example\<lparr>CredentialsService_get := (\<lambda>cid. Some totp_credentials)\<rparr>"

definition alice_totp_root :: session where
  "alice_totp_root = alice_root\<lparr>Authentication_LoginDescriptor := Some [''password'', ''totp'']\<rparr>"

text \<open>The same deployment with \<^verbatim>\<open>totp\<close> and \<^verbatim>\<open>password\<close> enforced for everybody.\<close>

definition enforcing_services :: services where
  "enforcing_services = services_example\<lparr>EnforceFactors := Some [''totp'', ''password'']\<rparr>"

section \<open>Verification\<close>

subsection \<open>Cookie introspection\<close>

text \<open>
  C7. The claim: after a successful introspection without \<^verbatim>\<open>keepcookie\<close>, the Cookie header
  handed to the proxy holds no SeaCat session cookie. The pattern asks for a semicolon
  before or after the cookie, so a header that consists of the SeaCat cookie alone is not
  matched: the cookie \<^verbatim>\<open>SeaCatSCI=auth.example:c2Vzc2lvbg==\<close> resolves to the session of
  \<^verbatim>\<open>alice\<close>, the handler answers 200, and the session cookie is passed on unchanged.
\<close>

theorem nginx_lone_session_cookie_not_stripped:
  "get_session_by_sci cookie_env_example
     \<lparr>Cookie_header = Some ''SeaCatSCI=auth.example:c2Vzc2lvbg=='', query_keepcookie = None,
      query_add = []\<rparr>
   = Inr (Some alice_root)
   \<and> nginx cookie_env_example
       \<lparr>Cookie_header = Some ''SeaCatSCI=auth.example:c2Vzc2lvbg=='', query_keepcookie = None,
        query_add = []\<rparr>
     = Inr \<lparr>status = 200,
            headers = [(''Authorization'', ''Bearer dG9rZW4=''),
                       (''Cookie'', ''SeaCatSCI=auth.example:c2Vzc2lvbg=='')],
            cookie = CookieUntouched\<rparr>"
  by (simp add: nginx_def get_session_by_sci_def get_session_cookie_id_def split_domain_def
      cookie_env_example_def SimpleCookie_get_example_def alice_root_def match_at_def
      match_leading_def match_following_def not_semicolon_def)

subsection \<open>LDAP provider\<close>

lemma enable_tls_no_unbind: "UnbindS \<notin> set (snd (enable_tls c))"
  by (simp add: enable_tls_def Let_def)

text \<open>
  C9. The claim: every LDAP operation unbinds its connection on every exit path, and an
  authenticate call that fails with invalid credentials unbinds before returning False.
  In \<^verbatim>\<open>_authenticate_worker\<close> the \<^verbatim>\<open>except ldap.INVALID_CREDENTIALS\<close> branch returns False
  before the \<^verbatim>\<open>unbind_s\<close> statement is reached: whenever the worker returns False, its
  connection was never unbound. (The search workers go through \<^verbatim>\<open>_ldap_client\<close>, whose
  \<^verbatim>\<open>finally\<close> clause does unbind.)
\<close>

theorem authenticate_worker_False_never_unbinds:
  "fst (authenticate_worker c srv cid pw) = Inr False
   \<Longrightarrow> UnbindS \<notin> set (snd (authenticate_worker c srv cid pw))"
  using enable_tls_no_unbind [of c]
  by (auto simp: authenticate_worker_def Let_def split: option.splits if_splits prod.splits)

theorem authenticate_worker_False_never_unbinds_witness:
  "authenticate_worker ldap_config_example ldap_server_example ''Y249Ym9i'' (Some ''guess'')
     = (Inr False,
        [Initialize ''ldap://localhost:389/'', SetOption ''protocol_version'' ''3'',
         SetOption ''OPT_REFERRALS'' ''0'', SimpleBind ''cn=bob'' (Some ''guess'')])
   \<and> UnbindS \<notin> set (snd (authenticate_worker ldap_config_example ldap_server_example
                               ''Y249Ym9i'' (Some ''guess'')))"
proof -
  have e: "authenticate_worker ldap_config_example ldap_server_example ''Y249Ym9i'' (Some ''guess'')
     = (Inr False,
        [Initialize ''ldap://localhost:389/'', SetOption ''protocol_version'' ''3'',
         SetOption ''OPT_REFERRALS'' ''0'', SimpleBind ''cn=bob'' (Some ''guess'')])"
    by (simp add: authenticate_worker_def ldap_config_example_def ldap_server_example_def)
  then have "fst (authenticate_worker ldap_config_example ldap_server_example ''Y249Ym9i''
                    (Some ''guess'')) = Inr False"
    by simp
  from authenticate_worker_False_never_unbinds [OF this] e show ?thesis by simp
qed

subsection \<open>Access tokens\<close>

text \<open>
  C10. If the access-token lookup finds a live token record of type \<^verbatim>\<open>oat\<close> whose session
  does not exist, \<^verbatim>\<open>get_session_by_access_token\<close> removes the token record and raises
  SessionNotFoundError; in the store it leaves behind, a lookup of the same token value
  raises SessionNotFoundError at any later time and changes nothing.
\<close>

theorem dangling_access_token_deleted:
  assumes "b64decode token_value = Some token_bytes"
    and "tokens st token_bytes = Some t"
    and "token_type t = ''oat''"
    and "now < token_expires_at t"
    and "sessions st (token_sid t) = None"
  shows "get_session_by_access_token b64decode st now token_value
           = (Inl SessionNotFoundError, st\<lparr>tokens := (tokens st)(token_bytes := None)\<rparr>)
         \<and> (\<forall>later. get_session_by_access_token b64decode
                        (snd (get_session_by_access_token b64decode st now token_value))
                        later token_value
                      = (Inl SessionNotFoundError,
                         snd (get_session_by_access_token b64decode st now token_value)))"
proof -
  have first: "get_session_by_access_token b64decode st now token_value
           = (Inl SessionNotFoundError, st\<lparr>tokens := (tokens st)(token_bytes := None)\<rparr>)"
    using assms
    by (simp add: get_session_by_access_token_def TokenService_get_def SessionService_get_def
        TokenService_delete_token_def AccessToken_TokenType_def)
  have again: "get_session_by_access_token b64decode
                 (st\<lparr>tokens := (tokens st)(token_bytes := None)\<rparr>) later token_value
               = (Inl SessionNotFoundError, st\<lparr>tokens := (tokens st)(token_bytes := None)\<rparr>)"
    for later
    using assms(1)
    by (simp add: get_session_by_access_token_def TokenService_get_def)
  from first again show ?thesis by simp
qed

theorem dangling_access_token_deleted_witness:
  "get_session_by_access_token b64decode_example dangling_store 10 ''dG9rZW4=''
     = (Inl SessionNotFoundError, dangling_store\<lparr>tokens := (tokens dangling_store)(''token'' := None)\<rparr>)
   \<and> (\<forall>later. get_session_by_access_token b64decode_example
                  (snd (get_session_by_access_token b64decode_example dangling_store 10 ''dG9rZW4=''))
                  later ''dG9rZW4=''
                = (Inl SessionNotFoundError,
                   snd (get_session_by_access_token b64decode_example dangling_store 10 ''dG9rZW4='')))"
proof (rule dangling_access_token_deleted)
  show "b64decode_example ''dG9rZW4='' = Some ''token''"
    by (simp add: b64decode_example_def)
  show "tokens dangling_store ''token''
          = Some \<lparr>token_type = ''oat'', token_sid = ''oidc-7'', token_expires_at = 1000\<rparr>"
    by (simp add: dangling_store_def)
  show "token_type \<lparr>token_type = ''oat'', token_sid = ''oidc-7'', token_expires_at = 1000\<rparr> = ''oat''"
    by simp
  show "10 < token_expires_at \<lparr>token_type = ''oat'', token_sid = ''oidc-7'', token_expires_at = 1000\<rparr>"
    by simp
  show "sessions dangling_store
          (token_sid \<lparr>token_type = ''oat'', token_sid = ''oidc-7'', token_expires_at = 1000\<rparr>) = None"
    by (simp add: dangling_store_def)
qed

subsection \<open>Impersonated sessions\<close>

lemma apply_builder_other: "\<not> is_authz b \<Longrightarrow> Authorization_Authz (apply_builder s b) = Authorization_Authz s"
  by (cases b) simp_all

lemma foldl_no_authz:
  "\<forall>b\<in>set bs. \<not> is_authz b \<Longrightarrow> Authorization_Authz (foldl apply_builder s bs) = Authorization_Authz s"
  by (induction bs arbitrary: s) (simp_all add: apply_builder_other)

lemma apply_builders_authz:
  assumes "\<forall>b\<in>set (concat rest). \<not> is_authz b"
  shows "Authorization_Authz
           (apply_builders s0 (c # [Set_Authorization_AssignedTenants a, Set_Authorization_Authz z] # rest))
         = Some z"
  using assms by (simp add: apply_builders_def foldl_no_authz)

lemma build_credentials_authz_excludes:
  "r \<in> X \<Longrightarrow> \<not> list_ex (\<lambda>(k, rs). r \<in> set rs) (build_credentials_authz e cid tenants X)"
  by (auto simp: build_credentials_authz_def list_ex_iff split: option.splits)

lemma batman_builder_no_authz: "batman_builder e r = Inr b \<Longrightarrow> \<forall>x\<in>set b. \<not> is_authz x"
  by (auto simp: batman_builder_def Let_def split: option.splits)

lemma create_authz:
  assumes "create_oidc_session e st root_session client_id scope nonce redirect_uri tenants ex = Inr (s, st')"
  shows "Authorization_Authz s
         = Some (build_credentials_authz e (Credentials_Id root_session) tenants
                   (exclude_resources_for root_session))"
  using assms
  by (auto simp: create_oidc_session_def Let_def authz_session_builder_def
        SessionService_create_session_def apply_builders_authz oauth2_session_builder_def
      split: sum.splits if_splits option.splits dest!: batman_builder_no_authz)


lemma refresh_authz:
  assumes "refresh_session e st session requested = Inr (s, st')"
    and "Session_ParentSessionId session = Some parent"
    and "sessions st parent = Some root_session"
  shows "\<exists>tenants. Authorization_Authz s
         = Some (build_credentials_authz e (Credentials_Id root_session) tenants
                   (exclude_resources_for root_session))"
  using assms
  by (auto simp: refresh_session_def Let_def authz_session_builder_def SessionService_get_def
        SessionService_update_session_def apply_builders_authz
      split: sum.splits if_splits option.splits dest!: batman_builder_no_authz)

text \<open>
  C8. A session created (\<^verbatim>\<open>create_oidc_session\<close>) or refreshed (\<^verbatim>\<open>refresh_session\<close>) from a
  root session that carries an impersonator session id has an authz map, and no entry of
  that map holds \<^verbatim>\<open>authz:superuser\<close> or \<^verbatim>\<open>authz:impersonate\<close>: both functions pass the two
  resources as \<^verbatim>\<open>exclude_resources\<close> to the authz builder, and no later builder writes the
  authz map.
\<close>

theorem impersonated_session_excludes_critical_resources:
  assumes "Authentication_ImpersonatorSessionId root_session \<noteq> None"
  shows "(create_oidc_session e st root_session client_id scope nonce redirect_uri tenants expiration
            = Inr (s, st')
          \<longrightarrow> Authorization_Authz s \<noteq> None
              \<and> \<not> carries s ''authz:superuser'' \<and> \<not> carries s ''authz:impersonate'')
       \<and> (Session_ParentSessionId session = Some (SessionId root_session)
          \<and> sessions st (SessionId root_session) = Some root_session
          \<and> refresh_session e st session requested_scope = Inr (s, st')
          \<longrightarrow> Authorization_Authz s \<noteq> None
              \<and> \<not> carries s ''authz:superuser'' \<and> \<not> carries s ''authz:impersonate'')"
proof -
  from assms have x: "exclude_resources_for root_session = {''authz:superuser'', ''authz:impersonate''}"
    by (simp add: exclude_resources_for_def)
  have clean: "\<not> list_ex (\<lambda>(k, rs). r \<in> set rs)
                   (build_credentials_authz e (Credentials_Id root_session) ts
                      (exclude_resources_for root_session))"
    if "r = ''authz:superuser'' \<or> r = ''authz:impersonate''" for r ts
    using that x build_credentials_authz_excludes [of r "exclude_resources_for root_session"]
    by auto
  show ?thesis
  proof (intro conjI impI)
    assume c: "create_oidc_session e st root_session client_id scope nonce redirect_uri tenants expiration
            = Inr (s, st')"
    note a = create_authz [OF c]
    show "Authorization_Authz s \<noteq> None" using a by simp
    show "\<not> carries s ''authz:superuser''" using a clean by (simp add: carries_def)
    show "\<not> carries s ''authz:impersonate''" using a clean by (simp add: carries_def)
  next
    assume r: "Session_ParentSessionId session = Some (SessionId root_session)
          \<and> sessions st (SessionId root_session) = Some root_session
          \<and> refresh_session e st session requested_scope = Inr (s, st')"
    then obtain ts where a: "Authorization_Authz s
         = Some (build_credentials_authz e (Credentials_Id root_session) ts
                   (exclude_resources_for root_session))"
      using refresh_authz by blast
    show "Authorization_Authz s \<noteq> None" using a by simp
    show "\<not> carries s ''authz:superuser''" using a clean by (simp add: carries_def)
    show "\<not> carries s ''authz:impersonate''" using a clean by (simp add: carries_def)
  qed
qed


theorem impersonated_session_excludes_critical_resources_witness:
  "Authentication_ImpersonatorSessionId impersonated_root \<noteq> None
   \<and> (\<exists>s st'. create_oidc_session services_example impersonation_store impersonated_root
                   ''app1'' [''openid'', ''profile''] None None (Some [''acme'']) None = Inr (s, st')
              \<and> Authorization_Authz s \<noteq> None
              \<and> \<not> carries s ''authz:superuser'' \<and> \<not> carries s ''authz:impersonate'')
   \<and> Session_ParentSessionId impersonated_child = Some (SessionId impersonated_root)
   \<and> sessions impersonation_store (SessionId impersonated_root) = Some impersonated_root
   \<and> (\<exists>s st'. refresh_session services_example impersonation_store impersonated_child None
                   = Inr (s, st')
              \<and> Authorization_Authz s \<noteq> None
              \<and> \<not> carries s ''authz:superuser'' \<and> \<not> carries s ''authz:impersonate'')"
proof -
  have h: "Authentication_ImpersonatorSessionId impersonated_root \<noteq> None"
    by (simp add: impersonated_root_def)
  have p: "Session_ParentSessionId impersonated_child = Some (SessionId impersonated_root)"
    by (simp add: impersonated_child_def impersonated_root_def blank_session_def)
  have q: "sessions impersonation_store (SessionId impersonated_root) = Some impersonated_root"
    by (simp add: impersonation_store_def impersonated_root_def)
  obtain s1 st1 where c: "create_oidc_session services_example impersonation_store impersonated_root
                   ''app1'' [''openid'', ''profile''] None None (Some [''acme'']) None = Inr (s1, st1)"
    by (simp add: create_oidc_session_def authz_session_builder_def TenantService_get_tenants_def
        services_example_def SessionService_create_session_def wants_authn_info_def Let_def)
  obtain s2 st2 where r: "refresh_session services_example impersonation_store impersonated_child None
                   = Inr (s2, st2)"
    by (simp add: refresh_session_def SessionService_get_def authz_session_builder_def
        TenantService_get_tenants_def get_accessible_tenant_from_scope_def
        SessionService_update_session_def wants_authn_info_def Let_def
        services_example_def impersonated_child_def blank_session_def
        impersonation_store_def)
  note 1 = impersonated_session_excludes_critical_resources
             [OF h, THEN conjunct1, THEN mp, OF c]
  note 2 = impersonated_session_excludes_critical_resources
             [OF h, THEN conjunct2, THEN mp, OF conjI [OF p conjI [OF q r]]]
  from h p q c r 1 2 show ?thesis by blast
qed

subsection \<open>Authorize endpoint\<close>

text \<open>Definitions unfolded when a scenario is evaluated.\<close>

lemmas url_defs = urlencode_def urlencode_doseq_def quote_plus_def quote_def always_safe_def
  percent_encode_def hexdigit_def

lemmas scen_defs = handler_example_def services_example_def empty_store_def anonymous_request_def
  alice_request_def admin_request_def authorize_parameters_def alice_root_def admin_root_def
  AuthorizeHandler_init_def strip_slash_def urlparse_example_def urlunparse_example_def
  star_resources_def

lemmas flow_defs = authorize_def required_parameters_def login_parameters_of_def authentication_code_flow_def
  code_flow_after_client_check_def authenticated_code_flow_def reply_with_authentication_error_def
  audit_authorize_error_def AuthorizePath_def

lemmas create_defs = create_oidc_session_def authz_session_builder_def TenantService_get_tenants_def
  SessionService_create_session_def apply_builders_def blank_session_def wants_authn_info_def
  oauth2_session_builder_def exclude_resources_for_def build_credentials_authz_def
  audit_authorize_success_def reply_with_successful_response_def success_query_def
  generate_authorization_code_def found_headers_def get_factors_to_setup_def default_tenant_def
  user_has_access_to_all_tenants_def

text \<open>
  C2. The claim: with \<^verbatim>\<open>prompt=none\<close> and no root session the endpoint redirects to the
  redirect URI with \<^verbatim>\<open>error=login_required\<close> and the echoed state, and leaves the cookie
  alone. The cookie is left alone and the reply is a 302, but the call passes the request
  object first: the Location is the relative URL \<^verbatim>\<open>login_required?...\<close>, its \<^verbatim>\<open>error\<close> is the
  percent-encoded text of the request object, and the redirect URI travels as
  \<^verbatim>\<open>error_description\<close>.
\<close>

theorem login_required_reply_misplaces_arguments:
  "authorize handler_example services_example empty_store 100 anonymous_request
     (authorize_parameters ''app1'' ''https://app1/cb'' ''openid'' @ [(''prompt'', ''none'')])
   = (Inr \<lparr>status = 302,
           headers = [(''Location'',
             ''login_required?error=%3CRequest+GET+%2Fopenidconnect%2Fauthorize+%3E&error_description=https%3A%2F%2Fapp1%2Fcb&state=s1'')],
           cookie = CookieUntouched\<rparr>,
      empty_store\<lparr>audit := [AUTHORIZE_ERROR ''app1'' ''login_required'' None]\<rparr>)"
  by (simp add: flow_defs scen_defs url_defs)

text \<open>
  C4. The claim: when the client lookup fails (unknown client id, invalid client secret)
  the request ends with an error reply and goes no further. The handlers of \<^verbatim>\<open>KeyError\<close> and
  \<^verbatim>\<open>InvalidClientSecret\<close> only log (a TODO asks for the error response): for the unknown
  client \<^verbatim>\<open>ghost\<close> and an authenticated user the flow validates the scope, creates a child
  session, records an authorize success and issues a code.
\<close>

theorem unknown_client_still_gets_code:
  "authorize_client services_example ''ghost'' None ''https://app1/cb'' [''openid''] = Some KeyError
   \<and> fst (authorize handler_example services_example empty_store 100 alice_request
            (authorize_parameters ''ghost'' ''https://app1/cb'' ''openid''))
     = Inr \<lparr>status = 302,
            headers = [(''Refresh'', ''0;url=https://app1/cb?state=s1&code=Y29kZS1ieXRlcw%3D%3D''),
                       (''Location'', ''https://app1/cb?state=s1&code=Y29kZS1ieXRlcw%3D%3D'')],
            cookie = CookieUntouched\<rparr>
   \<and> audit (snd (authorize handler_example services_example empty_store 100 alice_request
                   (authorize_parameters ''ghost'' ''https://app1/cb'' ''openid'')))
     = [AUTHORIZE_SUCCESS ''mongodb:default:alice'' [] (Some ''ghost'') (Some [''openid''])]
   \<and> tokens (snd (authorize handler_example services_example empty_store 100 alice_request
                    (authorize_parameters ''ghost'' ''https://app1/cb'' ''openid''))) ''code-bytes''
     = Some \<lparr>token_type = ''oac'', token_sid = ''oidc-1'', token_expires_at = 160\<rparr>"
  by (simp add: flow_defs scen_defs url_defs create_defs Let_def)

text \<open>How a well-formed code request travels through \<^verbatim>\<open>authorize\<close>.\<close>

lemma required_present:
  assumes "code_request ps client_id redirect_uri scope_text"
  shows "find (\<lambda>p. map_of ps p = None \<or> map_of ps p = Some '''') required_parameters = None"
  using assms by (simp add: code_request_def required_parameters_def)

lemma authorize_code_request:
  assumes "code_request ps client_id redirect_uri scope_text"
  shows "authorize h e st now request ps
         = authentication_code_flow h e st now request (split_on CHR '' '' scope_text) client_id
             redirect_uri (map_of ps ''client_secret'') (map_of ps ''state'') (map_of ps ''prompt'')
             (login_parameters_of ps)"
  using assms required_present [OF assms]
  by (simp add: authorize_def code_request_def Let_def)

lemma authorize_authenticated:
  assumes "code_request ps client_id redirect_uri scope_text"
    and "client_check_passes e ps client_id redirect_uri scope_text"
    and "''openid'' \<in> set (split_on CHR '' '' scope_text)"
    and "authenticated_with request ps root_session"
  shows "authorize h e st now request ps
         = authenticated_code_flow h e st now root_session (split_on CHR '' '' scope_text) client_id
             redirect_uri (map_of ps ''state'') (login_parameters_of ps)"
proof -
  from assms(2) have c: "authentication_code_flow h e st now request (split_on CHR '' '' scope_text)
        client_id redirect_uri (map_of ps ''client_secret'') (map_of ps ''state'')
        (map_of ps ''prompt'') (login_parameters_of ps)
      = code_flow_after_client_check h e st now request (split_on CHR '' '' scope_text)
        client_id redirect_uri (map_of ps ''state'') (map_of ps ''prompt'') (login_parameters_of ps)"
    by (auto simp: authentication_code_flow_def client_check_passes_def split: option.splits)
  from assms(3,4) have "code_flow_after_client_check h e st now request (split_on CHR '' '' scope_text)
        client_id redirect_uri (map_of ps ''state'') (map_of ps ''prompt'') (login_parameters_of ps)
      = authenticated_code_flow h e st now root_session (split_on CHR '' '' scope_text) client_id
             redirect_uri (map_of ps ''state'') (login_parameters_of ps)"
    by (auto simp: code_flow_after_client_check_def authenticated_with_def)
  with c authorize_code_request [OF assms(1)] show ?thesis by simp
qed

text \<open>
  C3. The claim: a redirect URI that the client check rejects yields an inline error page
  and no redirect at all. In the code the reply to \<^verbatim>\<open>InvalidRedirectURI\<close> is built by
  \<^verbatim>\<open>reply_with_authentication_error\<close> with no redirect URI, in the branch that carries the
  note \<^verbatim>\<open>TODO: Use the /message page on frontend\<close>: whenever the client check raises
  \<^verbatim>\<open>InvalidRedirectURI\<close>, the endpoint renders nothing and answers with a 302 whose Location
  is the server's own authorize URL with the error in the query.
\<close>

theorem invalid_redirect_uri_redirects_to_own_authorize_url:
  assumes "code_request ps client_id redirect_uri scope_text"
    and "authorize_client e client_id (map_of ps ''client_secret'') redirect_uri
           (split_on CHR '' '' scope_text) = Some InvalidRedirectURI"
  shows "authorize h e st now request ps
         = (Inr \<lparr>status = 302,
                 headers = [(''Location'',
                    PublicApiBaseUrl h @ ''/openidconnect/authorize?''
                    @ urlencode ([(''error'', ''invalid_redirect_uri''),
                                  (''error_description'',
                                   ''redirect_uri is not valid for given client_id'')]
                                 @ (case map_of ps ''state'' of
                                      Some s \<Rightarrow> [(''state'', s)] | None \<Rightarrow> [])))],
                 cookie = CookieUntouched\<rparr>,
            st\<lparr>audit := audit st @ [AUTHORIZE_ERROR client_id ''invalid_redirect_uri'' None]\<rparr>)"
  using assms(2)
  by (simp add: authorize_code_request [OF assms(1)] authentication_code_flow_def
      reply_with_authentication_error_def audit_authorize_error_def AuthorizePath_def)

theorem invalid_redirect_uri_redirects_to_own_authorize_url_witness:
  "code_request (authorize_parameters ''app1'' ''https://evil/cb'' ''openid'')
     ''app1'' ''https://evil/cb'' ''openid''
   \<and> authorize_client services_example ''app1'' None ''https://evil/cb'' [''openid'']
       = Some InvalidRedirectURI
   \<and> authorize handler_example services_example empty_store 100 alice_request
       (authorize_parameters ''app1'' ''https://evil/cb'' ''openid'')
     = (Inr \<lparr>status = 302,
             headers = [(''Location'',
               ''https://auth.example/api/openidconnect/authorize?error=invalid_redirect_uri&error_description=redirect_uri+is+not+valid+for+given+client_id&state=s1'')],
             cookie = CookieUntouched\<rparr>,
        empty_store\<lparr>audit := [AUTHORIZE_ERROR ''app1'' ''invalid_redirect_uri'' None]\<rparr>)"
proof -
  have a: "code_request (authorize_parameters ''app1'' ''https://evil/cb'' ''openid'')
     ''app1'' ''https://evil/cb'' ''openid''"
    by (simp add: code_request_def authorize_parameters_def)
  have b: "authorize_client services_example ''app1''
             (map_of (authorize_parameters ''app1'' ''https://evil/cb'' ''openid'') ''client_secret'')
             ''https://evil/cb'' (split_on CHR '' '' ''openid'') = Some InvalidRedirectURI"
    by (simp add: services_example_def)
  have b': "authorize_client services_example ''app1'' None ''https://evil/cb'' [''openid'']
       = Some InvalidRedirectURI"
    by (simp add: services_example_def)
  from invalid_redirect_uri_redirects_to_own_authorize_url
         [OF a b, of handler_example empty_store 100 alice_request]
  have "authorize handler_example services_example empty_store 100 alice_request
       (authorize_parameters ''app1'' ''https://evil/cb'' ''openid'')
     = (Inr \<lparr>status = 302,
             headers = [(''Location'',
               ''https://auth.example/api/openidconnect/authorize?error=invalid_redirect_uri&error_description=redirect_uri+is+not+valid+for+given+client_id&state=s1'')],
             cookie = CookieUntouched\<rparr>,
        empty_store\<lparr>audit := [AUTHORIZE_ERROR ''app1'' ''invalid_redirect_uri'' None]\<rparr>)"
    by (simp add: url_defs handler_example_def AuthorizeHandler_init_def strip_slash_def
        authorize_parameters_def empty_store_def)
  with a b' show ?thesis by simp
qed

text \<open>
  That Location has none of the required parameters. A request without a redirect URI is
  answered with a 302 to the authorize URL as well, so the user agent that follows the
  redirect is sent round again and the error is never shown.
\<close>

lemma request_without_redirect_uri_is_redirected_to_authorize:
  assumes "map_of ps ''redirect_uri'' = None"
  shows "\<exists>missing. authorize h e st now request ps
           = (Inr \<lparr>status = 302,
                   headers = [(''Location'',
                      PublicApiBaseUrl h @ ''/openidconnect/authorize?''
                      @ urlencode ([(''error'', ''invalid_request''),
                                    (''error_description'',
                                     ''Missing required parameter: '' @ missing)]
                                   @ (case map_of ps ''state'' of
                                        Some s \<Rightarrow> [(''state'', s)] | None \<Rightarrow> [])))],
                   cookie = CookieUntouched\<rparr>,
              st)"
proof -
  have "find (\<lambda>p. map_of ps p = None \<or> map_of ps p = Some '''') required_parameters \<noteq> None"
    using assms by (simp add: find_None_iff required_parameters_def)
  then obtain p where
    "find (\<lambda>p. map_of ps p = None \<or> map_of ps p = Some '''') required_parameters = Some p"
    by blast
  with assms show ?thesis
    by (auto simp: authorize_def Let_def reply_with_authentication_error_def AuthorizePath_def)
qed

lemma invalid_redirect_uri_follow_up_redirects_again:
  "\<exists>missing.
     authorize handler_example services_example empty_store 100 alice_request
       [(''error'', ''invalid_redirect_uri''),
        (''error_description'', ''redirect_uri is not valid for given client_id''),
        (''state'', ''s1'')]
     = (Inr \<lparr>status = 302,
             headers = [(''Location'',
               ''https://auth.example/api/openidconnect/authorize?''
               @ urlencode [(''error'', ''invalid_request''),
                            (''error_description'', ''Missing required parameter: '' @ missing),
                            (''state'', ''s1'')])],
             cookie = CookieUntouched\<rparr>,
        empty_store)"
  using request_without_redirect_uri_is_redirected_to_authorize
          [of "[(''error'', ''invalid_redirect_uri''),
                (''error_description'', ''redirect_uri is not valid for given client_id''),
                (''state'', ''s1'')]" handler_example services_example empty_store 100 alice_request]
  by (simp add: handler_example_def AuthorizeHandler_init_def strip_slash_def)







text \<open>What a created child session looks like, and where the authenticated part issues it.\<close>

lemma apply_builder_ids:
  "SessionId (apply_builder s b) = SessionId s
   \<and> Session_Type (apply_builder s b) = Session_Type s
   \<and> Session_ParentSessionId (apply_builder s b) = Session_ParentSessionId s"
  by (cases b) simp_all

lemma foldl_apply_builder_ids:
  "SessionId (foldl apply_builder s bs) = SessionId s
   \<and> Session_Type (foldl apply_builder s bs) = Session_Type s
   \<and> Session_ParentSessionId (foldl apply_builder s bs) = Session_ParentSessionId s"
  by (induction bs arbitrary: s) (simp_all add: apply_builder_ids)

lemma create_session_props:
  assumes "SessionService_create_session e st ty parent x bs = (s, st1)"
  shows "SessionId s = new_session_id e st \<and> Session_Type s = ty
         \<and> Session_ParentSessionId s = parent
         \<and> sessions st1 (SessionId s) = Some s \<and> tokens st1 = tokens st \<and> audit st1 = audit st"
  using assms foldl_apply_builder_ids [of "blank_session (new_session_id e st) ty parent" "concat bs"]
  by (auto simp: SessionService_create_session_def Let_def apply_builders_def blank_session_def)

lemma create_oidc_session_shape:
  assumes "create_oidc_session e st root client_id scope n r t x = Inr p"
  shows "\<exists>bs. p = SessionService_create_session e st ''openidconnect'' (Some (SessionId root)) x bs"
  using assms
  by (auto simp: create_oidc_session_def Let_def split: sum.splits if_splits option.splits)

lemma create_oidc_session_props:
  assumes "create_oidc_session e st root client_id scope n r t x = Inr (s, st1)"
  shows "SessionId s = new_session_id e st \<and> Session_Type s = ''openidconnect''
         \<and> Session_ParentSessionId s = Some (SessionId root)
         \<and> sessions st1 (SessionId s) = Some s \<and> tokens st1 = tokens st \<and> audit st1 = audit st"
proof -
  from create_oidc_session_shape [OF assms] obtain bs where
    "SessionService_create_session e st ''openidconnect'' (Some (SessionId root)) x bs = (s, st1)"
    by auto
  from create_session_props [OF this] show ?thesis .
qed

lemma authenticated_flow_issues:
  assumes "TenantService_get_tenants e (Credentials_Id root) = Inr user_tenants"
    and "tenant_scope_loop e user_tenants (user_has_access_to_all_tenants e root) scope {} = Inr tenants"
    and "default_tenant e (Credentials_Id root) user_tenants scope tenants = Some tenants'"
    and "get_factors_to_setup e root = Inr []"
    and "authenticated_code_flow h e st now root scope client_id redirect_uri state lp = (Inr r, st')"
  shows "\<exists>session st2. sessions st2 (SessionId session) = Some session
           \<and> SessionId session = new_session_id e st
           \<and> Session_Type session = ''openidconnect''
           \<and> Session_ParentSessionId session = Some (SessionId root)
           \<and> tokens st2 = tokens st
           \<and> length (audit st2) = Suc (length (audit st))
           \<and> (r, st') = reply_with_successful_response e st2 now session scope redirect_uri state"
proof -
  from assms obtain expiration_arg session st1 st2 where
    c: "create_oidc_session e st root client_id scope (Some (PyStrSet tenants'))
          expiration_arg None None = Inr (session, st1)"
    and a: "audit_authorize_success st1 session = Inr st2"
    and r: "reply_with_successful_response e st2 now session scope redirect_uri state = (r, st')"
    by (auto simp: authenticated_code_flow_def split: sum.splits option.splits prod.splits)
  note p = create_oidc_session_props [OF c]
  from a obtain z where st2: "st2 = st1\<lparr>audit := audit st1 @ [z]\<rparr>"
    by (auto simp: audit_authorize_success_def split: option.splits)
  from p st2 r show ?thesis
    by (intro exI [of _ session] exI [of _ st2]) auto
qed

text \<open>The two loops of \<^verbatim>\<open>_get_factors_to_setup\<close> as sets.\<close>

lemma remove_login_factors:
  "distinct g \<Longrightarrow>
   set (foldl (\<lambda>fs t. if t \<in> set fs then remove1 t fs else fs) g factors) = set g - set factors"
proof (induction factors arbitrary: g)
  case Nil
  then show ?case by simp
next
  case (Cons t factors)
  have d: "distinct (if t \<in> set g then remove1 t g else g)"
    using Cons.prems by simp
  have s: "set (if t \<in> set g then remove1 t g else g) = set g - {t}"
    using Cons.prems by auto
  from Cons.IH [OF d] s show ?case by auto
qed

lemma append_missing_factors:
  "set (foldl (\<lambda>fs f. if f \<notin> set fs then fs @ [f] else fs) fs0 c) = set fs0 \<union> set c"
  by (induction c arbitrary: fs0) auto

lemma get_factors_to_setup_set:
  assumes "get_factors_to_setup e session = Inr fs"
    and "distinct (case EnforceFactors e of None \<Rightarrow> [] | Some g \<Rightarrow> g)"
    and "CredentialsService_get e (Credentials_Id session) = Some creds"
  shows "set fs
         = (set (case EnforceFactors e of None \<Rightarrow> [] | Some g \<Rightarrow> g)
            - set (case Authentication_LoginDescriptor session of None \<Rightarrow> [] | Some l \<Rightarrow> l))
           \<union> set (case enforce_factors creds of None \<Rightarrow> [] | Some c \<Rightarrow> c)"
  using assms
  by (auto simp: get_factors_to_setup_def Let_def append_missing_factors remove_login_factors
      split: option.splits sum.splits)

text \<open>
  C6. The claim: the factors to set up are the union of the globally enforced and the
  credential-enforced factors minus the factors of the current authentication. Only the
  globally enforced factors are reduced by the login; a factor enforced on the credentials
  is always added: with \<^verbatim>\<open>totp\<close> enforced on the credentials and a login that used \<^verbatim>\<open>totp\<close>,
  the code asks for \<^verbatim>\<open>totp\<close> and the formula for nothing.
\<close>

theorem credential_factor_not_reduced_by_login:
  "get_factors_to_setup totp_services alice_totp_root = Inr [''totp'']
   \<and> spec_factors_to_setup totp_services alice_totp_root totp_credentials = {}"
  by (simp add: get_factors_to_setup_def spec_factors_to_setup_def totp_services_def
      totp_credentials_def alice_totp_root_def alice_root_def services_example_def)

text \<open>
  C6, amended. For an authenticated code request whose tenants resolve, with the globally
  enforced factors listed without repetition: the factors to set up are the globally
  enforced factors minus the factor types of the login descriptor, together with all
  factors enforced on the credentials. If that list is not empty, the reply is a 302 to
  the home screen of the web UI whose fragment carries \<^verbatim>\<open>setup=\<close> the space-joined factors
  and, as \<^verbatim>\<open>redirect_uri\<close>, an authorize URL that starts with \<^verbatim>\<open>prompt=login\<close>; nothing is
  stored. If it is empty and the endpoint replies, the reply is the successful response
  for a child session that was stored and audited.
\<close>

theorem factor_setup_gate:
  assumes "code_request ps client_id redirect_uri scope_text"
    and "client_check_passes e ps client_id redirect_uri scope_text"
    and "scope = split_on CHR '' '' scope_text"
    and "''openid'' \<in> set scope"
    and "authenticated_with request ps root_session"
    and "TenantService_get_tenants e (Credentials_Id root_session) = Inr user_tenants"
    and "tenant_scope_loop e user_tenants (user_has_access_to_all_tenants e root_session) scope {}
           = Inr tenants"
    and "default_tenant e (Credentials_Id root_session) user_tenants scope tenants = Some tenants'"
    and "get_factors_to_setup e root_session = Inr factors_to_setup"
    and "CredentialsService_get e (Credentials_Id root_session) = Some creds"
    and "distinct (case EnforceFactors e of None \<Rightarrow> [] | Some g \<Rightarrow> g)"
  shows "set factors_to_setup
           = (set (case EnforceFactors e of None \<Rightarrow> [] | Some g \<Rightarrow> g)
              - set (case Authentication_LoginDescriptor root_session of None \<Rightarrow> [] | Some l \<Rightarrow> l))
             \<union> set (case enforce_factors creds of None \<Rightarrow> [] | Some c \<Rightarrow> c)
       \<and> (factors_to_setup \<noteq> []
          \<longrightarrow> authorize h e st now request ps
              = (Inr \<lparr>status = 302,
                      headers = found_headers
                        (urlunparse e
                           ((urlparse e (AuthWebuiBaseUrl h @ ''/#/''))
                              \<lparr>query := [],
                               fragment :=
                                 fragment (urlparse e (AuthWebuiBaseUrl h @ ''/#/'')) @ ''?''
                                 @ urlencode
                                     [(''setup'', join '' '' factors_to_setup),
                                      (''redirect_uri'',
                                       quote ''/''
                                         (PublicApiBaseUrl h @ ''/openidconnect/authorize?''
                                          @ urlencode
                                              ((''prompt'', ''login'')
                                               # authorize_query_params ''code'' scope client_id
                                                   redirect_uri (map_of ps ''state''))))]\<rparr>)),
                      cookie = (if ''cookie'' \<in> set scope then CookieSet (SessionId root_session)
                                else CookieUntouched)\<rparr>,
                 st))
       \<and> (factors_to_setup = []
          \<longrightarrow> (\<forall>r st'. authorize h e st now request ps = (Inr r, st')
                \<longrightarrow> (\<exists>session st2. sessions st2 (SessionId session) = Some session
                       \<and> Session_Type session = ''openidconnect''
                       \<and> Session_ParentSessionId session = Some (SessionId root_session)
                       \<and> length (audit st2) = Suc (length (audit st))
                       \<and> (r, st') = reply_with_successful_response e st2 now session scope
                                      redirect_uri (map_of ps ''state''))))"
proof -
  have flow: "authorize h e st now request ps
        = authenticated_code_flow h e st now root_session scope client_id redirect_uri
            (map_of ps ''state'') (login_parameters_of ps)"
    using authorize_authenticated [OF assms(1,2) _ assms(5)] assms(3,4) by simp
  have 1: "set factors_to_setup
           = (set (case EnforceFactors e of None \<Rightarrow> [] | Some g \<Rightarrow> g)
              - set (case Authentication_LoginDescriptor root_session of None \<Rightarrow> [] | Some l \<Rightarrow> l))
             \<union> set (case enforce_factors creds of None \<Rightarrow> [] | Some c \<Rightarrow> c)"
    by (rule get_factors_to_setup_set [OF assms(9) assms(11) assms(10)])
  have 2: "authorize h e st now request ps
              = (Inr (reply_with_factor_setup_redirect h e root_session factors_to_setup ''code''
                        scope client_id redirect_uri (map_of ps ''state'')), st)"
    if "factors_to_setup \<noteq> []"
    using that assms(6-9) by (simp add: flow authenticated_code_flow_def)
  have 3: "\<exists>session st2. sessions st2 (SessionId session) = Some session
                       \<and> Session_Type session = ''openidconnect''
                       \<and> Session_ParentSessionId session = Some (SessionId root_session)
                       \<and> length (audit st2) = Suc (length (audit st))
                       \<and> (r, st') = reply_with_successful_response e st2 now session scope
                                      redirect_uri (map_of ps ''state'')"
    if "factors_to_setup = []" "authorize h e st now request ps = (Inr r, st')" for r st'
    using authenticated_flow_issues [OF assms(6-8), of h st now client_id redirect_uri
            "map_of ps ''state''" "login_parameters_of ps" r st'] that assms(9) flow
    by auto
  from 1 2 3 show ?thesis
    by (simp add: reply_with_factor_setup_redirect_def factor_setup_return_uri_def Let_def
        HomePath_def AuthorizePath_def)
qed

theorem factor_setup_gate_witness:
  "code_request (authorize_parameters ''app1'' ''https://app1/cb'' ''openid'')
     ''app1'' ''https://app1/cb'' ''openid''
   \<and> client_check_passes enforcing_services
       (authorize_parameters ''app1'' ''https://app1/cb'' ''openid'') ''app1'' ''https://app1/cb'' ''openid''
   \<and> authenticated_with alice_request
       (authorize_parameters ''app1'' ''https://app1/cb'' ''openid'') alice_root
   \<and> TenantService_get_tenants enforcing_services (Credentials_Id alice_root) = Inr [''acme'']
   \<and> tenant_scope_loop enforcing_services [''acme'']
       (user_has_access_to_all_tenants enforcing_services alice_root) [''openid''] {} = Inr {}
   \<and> default_tenant enforcing_services (Credentials_Id alice_root) [''acme''] [''openid''] {} = Some {}
   \<and> get_factors_to_setup enforcing_services alice_root = Inr [''totp'']
   \<and> authorize handler_example enforcing_services empty_store 100 alice_request
         (authorize_parameters ''app1'' ''https://app1/cb'' ''openid'')
       = (Inr \<lparr>status = 302,
               headers = found_headers
                 ''https://auth.example/auth/#/?setup=totp&redirect_uri=https%253A%2F%2Fauth.example%2Fapi%2Fopenidconnect%2Fauthorize%253Fprompt%253Dlogin%2526response_type%253Dcode%2526scope%253Dopenid%2526client_id%253Dapp1%2526redirect_uri%253Dhttps%25253A%25252F%25252Fapp1%25252Fcb%2526state%253Ds1'',
               cookie = CookieUntouched\<rparr>,
          empty_store)
   \<and> get_factors_to_setup services_example alice_root = Inr []
   \<and> (\<exists>r st' session st2.
         authorize handler_example services_example empty_store 100 alice_request
           (authorize_parameters ''app1'' ''https://app1/cb'' ''openid'') = (Inr r, st')
         \<and> sessions st2 (SessionId session) = Some session
         \<and> Session_Type session = ''openidconnect''
         \<and> Session_ParentSessionId session = Some (SessionId alice_root)
         \<and> length (audit st2) = Suc (length (audit empty_store))
         \<and> (r, st') = reply_with_successful_response services_example st2 100 session
                          [''openid''] ''https://app1/cb'' (Some ''s1''))"
proof -
  let ?ps = "authorize_parameters ''app1'' ''https://app1/cb'' ''openid''"
  have cr: "code_request ?ps ''app1'' ''https://app1/cb'' ''openid''"
    by (simp add: code_request_def authorize_parameters_def)
  have cc: "client_check_passes enforcing_services ?ps ''app1'' ''https://app1/cb'' ''openid''"
    by (simp add: client_check_passes_def authorize_parameters_def services_example_def
        enforcing_services_def)
  have cc': "client_check_passes services_example ?ps ''app1'' ''https://app1/cb'' ''openid''"
    by (simp add: client_check_passes_def authorize_parameters_def services_example_def)
  have au: "authenticated_with alice_request ?ps alice_root"
    by (simp add: authenticated_with_def alice_request_def anonymous_request_def
        authorize_parameters_def alice_root_def)
  have sc: "[''openid''] = split_on CHR '' '' ''openid''" by simp
  have oi: "''openid'' \<in> set [''openid'']" by simp
  have ut: "TenantService_get_tenants enforcing_services (Credentials_Id alice_root) = Inr [''acme'']"
    by (simp add: TenantService_get_tenants_def services_example_def enforcing_services_def
        alice_root_def)
  have ut': "TenantService_get_tenants services_example (Credentials_Id alice_root) = Inr [''acme'']"
    by (simp add: TenantService_get_tenants_def services_example_def alice_root_def)
  have lo: "tenant_scope_loop enforcing_services [''acme'']
       (user_has_access_to_all_tenants enforcing_services alice_root) [''openid''] {} = Inr {}"
    by simp
  have lo': "tenant_scope_loop services_example [''acme'']
       (user_has_access_to_all_tenants services_example alice_root) [''openid''] {} = Inr {}"
    by simp
  have dt: "default_tenant enforcing_services (Credentials_Id alice_root) [''acme''] [''openid''] {}
              = Some {}"
    by (simp add: default_tenant_def)
  have dt': "default_tenant services_example (Credentials_Id alice_root) [''acme''] [''openid''] {}
              = Some {}"
    by (simp add: default_tenant_def)
  have fs: "get_factors_to_setup enforcing_services alice_root = Inr [''totp'']"
    by (simp add: get_factors_to_setup_def services_example_def enforcing_services_def
        alice_root_def)
  have fs': "get_factors_to_setup services_example alice_root = Inr []"
    by (simp add: get_factors_to_setup_def services_example_def alice_root_def)
  have cg: "CredentialsService_get enforcing_services (Credentials_Id alice_root)
              = Some \<lparr>enforce_factors = None\<rparr>"
    by (simp add: services_example_def enforcing_services_def)
  have cg': "CredentialsService_get services_example (Credentials_Id alice_root)
              = Some \<lparr>enforce_factors = None\<rparr>"
    by (simp add: services_example_def)
  have di: "distinct (case EnforceFactors enforcing_services of None \<Rightarrow> [] | Some g \<Rightarrow> g)"
    by (simp add: services_example_def enforcing_services_def)
  have di': "distinct (case EnforceFactors services_example of None \<Rightarrow> [] | Some g \<Rightarrow> g)"
    by (simp add: services_example_def)
  note g1 = factor_setup_gate [OF cr cc sc oi au ut lo dt fs cg di,
                               of handler_example empty_store 100]
  then have "authorize handler_example enforcing_services empty_store 100 alice_request ?ps
       = (Inr \<lparr>status = 302,
               headers = found_headers
                 ''https://auth.example/auth/#/?setup=totp&redirect_uri=https%253A%2F%2Fauth.example%2Fapi%2Fopenidconnect%2Fauthorize%253Fprompt%253Dlogin%2526response_type%253Dcode%2526scope%253Dopenid%2526client_id%253Dapp1%2526redirect_uri%253Dhttps%25253A%25252F%25252Fapp1%25252Fcb%2526state%253Ds1'',
               cookie = CookieUntouched\<rparr>,
          empty_store)"
    by (simp add: url_defs handler_example_def AuthorizeHandler_init_def strip_slash_def
        authorize_parameters_def authorize_query_params_def enforcing_services_def
        services_example_def urlparse_example_def urlunparse_example_def)
  moreover
  obtain r st' where res: "authorize handler_example services_example empty_store 100 alice_request ?ps
                            = (Inr r, st')"
    by (simp add: flow_defs scen_defs url_defs create_defs Let_def)
  note g2 = factor_setup_gate [OF cr cc' sc oi au ut' lo' dt' fs' cg' di',
                               of handler_example empty_store 100,
                               THEN conjunct2, THEN conjunct2, THEN mp, OF refl,
                               THEN spec, THEN spec, THEN mp, OF res]
  then have "\<exists>r st' session st2.
         authorize handler_example services_example empty_store 100 alice_request ?ps = (Inr r, st')
         \<and> sessions st2 (SessionId session) = Some session
         \<and> Session_Type session = ''openidconnect''
         \<and> Session_ParentSessionId session = Some (SessionId alice_root)
         \<and> length (audit st2) = Suc (length (audit empty_store))
         \<and> (r, st') = reply_with_successful_response services_example st2 100 session
                          [''openid''] ''https://app1/cb'' (Some ''s1'')"
    using res by (auto simp: authorize_parameters_def)
  ultimately show ?thesis
    using cr cc au ut lo dt fs fs' by simp
qed

text \<open>The successful response, and that the authenticated part reaches it.\<close>

lemma create_oidc_session_succeeds:
  assumes "TenantService_get_tenants e (Credentials_Id root) = Inr user_tenants"
    and "''batman'' \<in> set scope \<longrightarrow> (\<exists>b. batman_builder e root = Inr b)"
  shows "\<exists>s st1. create_oidc_session e st root client_id scope n r t x = Inr (s, st1)"
  using assms
  by (auto simp: create_oidc_session_def authz_session_builder_def Let_def
      SessionService_create_session_def)

lemma success_query_state:
  "map_of (success_query e redirect_uri (Some s) code) ''state'' = Some [s]"
  by (cases code) (simp_all add: success_query_def Let_def update_conv')

lemma success_query_code:
  "map_of (success_query e redirect_uri state (Some c)) ''code'' = Some [c]"
  by (simp add: success_query_def Let_def update_conv')

lemma success_query_no_code:
  "map_of (success_query e redirect_uri state None) ''code''
   = map_of (parse_qs e (query (urlparse e redirect_uri))) ''code''"
  by (cases state) (simp_all add: success_query_def Let_def update_conv')

lemma successful_response_props:
  assumes "(r, st') = reply_with_successful_response e st2 now session scope redirect_uri state"
  shows "status r = 302 \<and> sessions st' = sessions st2 \<and> audit st' = audit st2
       \<and> (\<exists>qs. header r ''Location''
                   = Some (urlunparse e ((urlparse e redirect_uri)\<lparr>query := urlencode_doseq qs\<rparr>))
             \<and> (\<forall>s. state = Some s \<longrightarrow> map_of qs ''state'' = Some [s])
             \<and> (''cookie'' \<notin> set scope
                \<longrightarrow> cookie r = CookieUntouched
                    \<and> (\<exists>token_bytes.
                          tokens st' token_bytes
                            = Some \<lparr>token_type = ''oac'', token_sid = SessionId session,
                                    token_expires_at = now + AuthorizationCode_Expiration e\<rparr>
                          \<and> map_of qs ''code'' = Some [urlsafe_b64encode e token_bytes]))
             \<and> (''cookie'' \<in> set scope
                \<longrightarrow> cookie r = CookieSet (SessionId session) \<and> tokens st' = tokens st2
                    \<and> map_of qs ''code''
                        = map_of (parse_qs e (query (urlparse e redirect_uri))) ''code''))"
proof (cases "''cookie'' \<in> set scope")
  case True
  with assms have r: "r = \<lparr>status = 302,
        headers = found_headers (urlunparse e ((urlparse e redirect_uri)
                     \<lparr>query := urlencode_doseq (success_query e redirect_uri state None)\<rparr>)),
        cookie = CookieSet (SessionId session)\<rparr>" and s: "st' = st2"
    by (simp_all add: reply_with_successful_response_def Let_def)
  show ?thesis
    using True
    by (auto simp: r s header_def found_headers_def success_query_state success_query_no_code
        intro!: exI [of _ "success_query e redirect_uri state None"])
next
  case False
  let ?tb = "new_token_bytes e st2"
  let ?c = "urlsafe_b64encode e ?tb"
  from False assms have r: "r = \<lparr>status = 302,
        headers = found_headers (urlunparse e ((urlparse e redirect_uri)
                     \<lparr>query := urlencode_doseq (success_query e redirect_uri state (Some ?c))\<rparr>)),
        cookie = CookieUntouched\<rparr>"
    and s: "st' = st2\<lparr>tokens := (tokens st2)(?tb \<mapsto>
                \<lparr>token_type = ''oac'', token_sid = SessionId session,
                 token_expires_at = now + AuthorizationCode_Expiration e\<rparr>)\<rparr>"
    by (simp_all add: reply_with_successful_response_def generate_authorization_code_def Let_def)
  show ?thesis
    using False
    by (auto simp: r s header_def found_headers_def success_query_state success_query_code
        intro!: exI [of _ "success_query e redirect_uri state (Some ?c)"] exI [of _ ?tb])
qed

lemma login_parameters_expiration:
  "map_of (login_parameters_of ps) ''expiration'' = map_of ps ''expiration''"
  by (simp add: login_parameters_of_def split: option.splits)

lemma authenticated_flow_replies:
  assumes "TenantService_get_tenants e (Credentials_Id root) = Inr user_tenants"
    and "tenant_scope_loop e user_tenants (user_has_access_to_all_tenants e root) scope {} = Inr tenants"
    and "default_tenant e (Credentials_Id root) user_tenants scope tenants = Some tenants'"
    and "get_factors_to_setup e root = Inr []"
    and "case map_of lp ''expiration'' of None \<Rightarrow> True | Some v \<Rightarrow> parse_int e v \<noteq> None"
    and "''batman'' \<in> set scope \<longrightarrow> (\<exists>b. batman_builder e root = Inr b)"
  shows "\<exists>r st'. authenticated_code_flow h e st now root scope client_id redirect_uri state lp
                  = (Inr r, st')"
proof -
  from assms(5) obtain requested_expiration where
    x: "(case map_of lp ''expiration'' of
           None \<Rightarrow> Inr None
         | Some v \<Rightarrow> (case parse_int e v of None \<Rightarrow> Inl ValueError | Some n \<Rightarrow> Inr (Some n)))
        = (Inr requested_expiration :: py_exn + int option)"
    by (auto split: option.splits)
  from create_oidc_session_succeeds [OF assms(1,6)] obtain s st1 where
    c: "create_oidc_session e st root client_id scope (Some (PyStrSet tenants'))
          (map_option PyInt requested_expiration) None None = Inr (s, st1)"
    by blast
  from create_authz [OF c] obtain st2 where a: "audit_authorize_success st1 s = Inr st2"
    by (simp add: audit_authorize_success_def)
  obtain r st3 where
    "reply_with_successful_response e st2 now s scope redirect_uri state = (r, st3)"
    by (cases "reply_with_successful_response e st2 now s scope redirect_uri state") blast
  with assms(1-4) x c a show ?thesis
    by (simp add: authenticated_code_flow_def)
qed

text \<open>
  C1. The claim: the authenticated request is answered with a 302 to the redirect URI
  carrying the code and the state, and with \<^verbatim>\<open>cookie\<close> in scope the code is still there.
  The code is generated only when \<^verbatim>\<open>cookie\<close> is not in scope: for the scope
  \<^verbatim>\<open>openid cookie\<close> the redirect carries the state alone, the session cookie is set, and no
  token is stored.
\<close>

theorem cookie_scope_reply_has_no_code:
  "fst (authorize handler_example services_example empty_store 100 alice_request
          (authorize_parameters ''app1'' ''https://app1/cb'' ''openid cookie''))
     = Inr \<lparr>status = 302,
            headers = [(''Refresh'', ''0;url=https://app1/cb?state=s1''),
                       (''Location'', ''https://app1/cb?state=s1'')],
            cookie = CookieSet ''oidc-1''\<rparr>
   \<and> tokens (snd (authorize handler_example services_example empty_store 100 alice_request
                    (authorize_parameters ''app1'' ''https://app1/cb'' ''openid cookie'')))
     = Map.empty"
  by (simp add: flow_defs scen_defs url_defs create_defs Let_def)

text \<open>
  C1, amended. For a well-formed code request that passes the client check, has
  \<^verbatim>\<open>openid\<close> in scope, comes with a root session and a prompt that is absent or \<^verbatim>\<open>none\<close>,
  whose tenants resolve and that needs no factor setup (and whose \<^verbatim>\<open>expiration\<close> parameter,
  if any, is an integer, and whose Batman credentials, if asked for, are ASCII): the
  endpoint stores a child session of type \<^verbatim>\<open>openidconnect\<close> under the root session and
  replies 302 to the redirect URI, with the state echoed in the query. Without \<^verbatim>\<open>cookie\<close> in
  scope it stores an authorization code for the child session and puts it in the query as
  \<^verbatim>\<open>code\<close>, touching no cookie; with \<^verbatim>\<open>cookie\<close> in scope it sets the session cookie, stores
  no token, and adds no \<^verbatim>\<open>code\<close> to the query of the redirect URI.
\<close>

theorem authenticated_request_is_answered_with_code_or_cookie:
  assumes "code_request ps client_id redirect_uri scope_text"
    and "client_check_passes e ps client_id redirect_uri scope_text"
    and "scope = split_on CHR '' '' scope_text"
    and "''openid'' \<in> set scope"
    and "authenticated_with request ps root_session"
    and "TenantService_get_tenants e (Credentials_Id root_session) = Inr user_tenants"
    and "tenant_scope_loop e user_tenants (user_has_access_to_all_tenants e root_session) scope {}
           = Inr tenants"
    and "default_tenant e (Credentials_Id root_session) user_tenants scope tenants = Some tenants'"
    and "get_factors_to_setup e root_session = Inr []"
    and "case map_of ps ''expiration'' of None \<Rightarrow> True | Some v \<Rightarrow> parse_int e v \<noteq> None"
    and "''batman'' \<in> set scope \<longrightarrow> (\<exists>b. batman_builder e root_session = Inr b)"
  shows "\<exists>session r st'.
           authorize h e st now request ps = (Inr r, st')
           \<and> sessions st' (SessionId session) = Some session
           \<and> Session_Type session = ''openidconnect''
           \<and> Session_ParentSessionId session = Some (SessionId root_session)
           \<and> status r = 302
           \<and> (\<exists>qs. header r ''Location''
                       = Some (urlunparse e ((urlparse e redirect_uri)\<lparr>query := urlencode_doseq qs\<rparr>))
                 \<and> (\<forall>s. map_of ps ''state'' = Some s \<longrightarrow> map_of qs ''state'' = Some [s])
                 \<and> (''cookie'' \<notin> set scope
                    \<longrightarrow> cookie r = CookieUntouched
                        \<and> (\<exists>token_bytes.
                              tokens st' token_bytes
                                = Some \<lparr>token_type = ''oac'', token_sid = SessionId session,
                                        token_expires_at = now + AuthorizationCode_Expiration e\<rparr>
                              \<and> map_of qs ''code'' = Some [urlsafe_b64encode e token_bytes]))
                 \<and> (''cookie'' \<in> set scope
                    \<longrightarrow> cookie r = CookieSet (SessionId session) \<and> tokens st' = tokens st
                        \<and> map_of qs ''code''
                            = map_of (parse_qs e (query (urlparse e redirect_uri))) ''code''))"
proof -
  have flow: "authorize h e st now request ps
        = authenticated_code_flow h e st now root_session scope client_id redirect_uri
            (map_of ps ''state'') (login_parameters_of ps)"
    using authorize_authenticated [OF assms(1,2) _ assms(5)] assms(3,4) by simp
  from assms(10) have x: "case map_of (login_parameters_of ps) ''expiration'' of
                            None \<Rightarrow> True | Some v \<Rightarrow> parse_int e v \<noteq> None"
    by (simp add: login_parameters_expiration)
  from authenticated_flow_replies [OF assms(6-9) x assms(11)] obtain r st' where
    res: "authenticated_code_flow h e st now root_session scope client_id redirect_uri
            (map_of ps ''state'') (login_parameters_of ps) = (Inr r, st')"
    by blast
  from authenticated_flow_issues [OF assms(6-9) res] obtain session st2 where
    s: "sessions st2 (SessionId session) = Some session"
       "Session_Type session = ''openidconnect''"
       "Session_ParentSessionId session = Some (SessionId root_session)"
       "tokens st2 = tokens st"
       "(r, st') = reply_with_successful_response e st2 now session scope redirect_uri
                     (map_of ps ''state'')"
    by blast
  note p = successful_response_props [OF s(5)]
  from p s(1-4) have "sessions st' (SessionId session) = Some session" by simp
  with p s(2-4) flow res show ?thesis
    by (intro exI [of _ session] exI [of _ r] exI [of _ st']) simp
qed

theorem authenticated_request_is_answered_with_code_or_cookie_witness:
  "code_request (authorize_parameters ''app1'' ''https://app1/cb'' ''openid'')
     ''app1'' ''https://app1/cb'' ''openid''
   \<and> client_check_passes services_example
       (authorize_parameters ''app1'' ''https://app1/cb'' ''openid'') ''app1'' ''https://app1/cb'' ''openid''
   \<and> authenticated_with alice_request
       (authorize_parameters ''app1'' ''https://app1/cb'' ''openid'') alice_root
   \<and> TenantService_get_tenants services_example (Credentials_Id alice_root) = Inr [''acme'']
   \<and> tenant_scope_loop services_example [''acme'']
       (user_has_access_to_all_tenants services_example alice_root) [''openid''] {} = Inr {}
   \<and> default_tenant services_example (Credentials_Id alice_root) [''acme''] [''openid''] {} = Some {}
   \<and> get_factors_to_setup services_example alice_root = Inr []
   \<and> (\<exists>session r st'.
         authorize handler_example services_example empty_store 100 alice_request
           (authorize_parameters ''app1'' ''https://app1/cb'' ''openid'') = (Inr r, st')
         \<and> sessions st' (SessionId session) = Some session
         \<and> Session_Type session = ''openidconnect''
         \<and> Session_ParentSessionId session = Some (SessionId alice_root)
         \<and> status r = 302
         \<and> (\<exists>qs. header r ''Location''
                     = Some (urlunparse services_example
                               ((urlparse services_example ''https://app1/cb'')
                                  \<lparr>query := urlencode_doseq qs\<rparr>))
               \<and> map_of qs ''state'' = Some [''s1'']
               \<and> cookie r = CookieUntouched
               \<and> (\<exists>token_bytes.
                     tokens st' token_bytes
                       = Some \<lparr>token_type = ''oac'', token_sid = SessionId session,
                               token_expires_at = 100 + AuthorizationCode_Expiration services_example\<rparr>
                     \<and> map_of qs ''code'' = Some [urlsafe_b64encode services_example token_bytes])))
   \<and> (\<exists>session r st'.
         authorize handler_example services_example empty_store 100 alice_request
           (authorize_parameters ''app1'' ''https://app1/cb'' ''openid cookie'') = (Inr r, st')
         \<and> sessions st' (SessionId session) = Some session
         \<and> Session_Type session = ''openidconnect''
         \<and> status r = 302
         \<and> (\<exists>qs. header r ''Location''
                     = Some (urlunparse services_example
                               ((urlparse services_example ''https://app1/cb'')
                                  \<lparr>query := urlencode_doseq qs\<rparr>))
               \<and> map_of qs ''state'' = Some [''s1'']
               \<and> cookie r = CookieSet (SessionId session)
               \<and> tokens st' = tokens empty_store
               \<and> map_of qs ''code''
                   = map_of (parse_qs services_example
                               (query (urlparse services_example ''https://app1/cb''))) ''code''))"
proof -
  let ?p = "\<lambda>scope_text. authorize_parameters ''app1'' ''https://app1/cb'' scope_text"
  have cr: "code_request (?p scope_text) ''app1'' ''https://app1/cb'' scope_text"
    if "scope_text \<noteq> []" for scope_text
    using that by (simp add: code_request_def authorize_parameters_def)
  have cc: "client_check_passes services_example (?p scope_text) ''app1'' ''https://app1/cb'' scope_text"
    for scope_text
    by (simp add: client_check_passes_def authorize_parameters_def services_example_def)
  have au: "authenticated_with alice_request (?p scope_text) alice_root" for scope_text
    by (simp add: authenticated_with_def alice_request_def anonymous_request_def
        authorize_parameters_def alice_root_def)
  have ut: "TenantService_get_tenants services_example (Credentials_Id alice_root) = Inr [''acme'']"
    by (simp add: TenantService_get_tenants_def services_example_def alice_root_def)
  have s1: "[''openid''] = split_on CHR '' '' ''openid''" by simp
  have s2: "[''openid'', ''cookie''] = split_on CHR '' '' ''openid cookie''" by simp
  have o1: "''openid'' \<in> set [''openid'']" by simp
  have o2: "''openid'' \<in> set [''openid'', ''cookie'']" by simp
  have l1: "tenant_scope_loop services_example [''acme'']
       (user_has_access_to_all_tenants services_example alice_root) [''openid''] {} = Inr {}"
    by simp
  have l2: "tenant_scope_loop services_example [''acme'']
       (user_has_access_to_all_tenants services_example alice_root) [''openid'', ''cookie''] {} = Inr {}"
    by simp
  have d1: "default_tenant services_example (Credentials_Id alice_root) [''acme''] [''openid''] {}
              = Some {}"
    by (simp add: default_tenant_def)
  have d2: "default_tenant services_example (Credentials_Id alice_root) [''acme'']
              [''openid'', ''cookie''] {} = Some {}"
    by (simp add: default_tenant_def)
  have fs: "get_factors_to_setup services_example alice_root = Inr []"
    by (simp add: get_factors_to_setup_def services_example_def alice_root_def)
  have x: "case map_of (?p scope_text) ''expiration'' of
             None \<Rightarrow> True | Some v \<Rightarrow> parse_int services_example v \<noteq> None" for scope_text
    by (simp add: authorize_parameters_def)
  have b1: "''batman'' \<in> set [''openid''] \<longrightarrow> (\<exists>b. batman_builder services_example alice_root = Inr b)"
    by simp
  have b2: "''batman'' \<in> set [''openid'', ''cookie'']
            \<longrightarrow> (\<exists>b. batman_builder services_example alice_root = Inr b)"
    by simp
  have st: "map_of (?p scope_text) ''state'' = Some ''s1''" for scope_text
    by (simp add: authorize_parameters_def)
  have n1: "''cookie'' \<notin> set [''openid'']" by simp
  have n2: "''cookie'' \<in> set [''openid'', ''cookie'']" by simp
  have e1: "''openid'' \<noteq> []" and e2: "''openid cookie'' \<noteq> []" by simp_all
  note t1 = authenticated_request_is_answered_with_code_or_cookie
              [OF cr [OF e1] cc s1 o1 au ut l1 d1 fs x b1, of handler_example empty_store 100]
  note t2 = authenticated_request_is_answered_with_code_or_cookie
              [OF cr [OF e2] cc s2 o2 au ut l2 d2 fs x b2, of handler_example empty_store 100]
  from t1 n1 st [of "''openid''"] have w1: "\<exists>session r st'.
         authorize handler_example services_example empty_store 100 alice_request
           (?p ''openid'') = (Inr r, st')
         \<and> sessions st' (SessionId session) = Some session
         \<and> Session_Type session = ''openidconnect''
         \<and> Session_ParentSessionId session = Some (SessionId alice_root)
         \<and> status r = 302
         \<and> (\<exists>qs. header r ''Location''
                     = Some (urlunparse services_example
                               ((urlparse services_example ''https://app1/cb'')
                                  \<lparr>query := urlencode_doseq qs\<rparr>))
               \<and> map_of qs ''state'' = Some [''s1'']
               \<and> cookie r = CookieUntouched
               \<and> (\<exists>token_bytes.
                     tokens st' token_bytes
                       = Some \<lparr>token_type = ''oac'', token_sid = SessionId session,
                               token_expires_at = 100 + AuthorizationCode_Expiration services_example\<rparr>
                     \<and> map_of qs ''code'' = Some [urlsafe_b64encode services_example token_bytes]))"
    by (elim exE conjE) (simp, blast)
  from t2 n2 st [of "''openid cookie''"] have w2: "\<exists>session r st'.
         authorize handler_example services_example empty_store 100 alice_request
           (?p ''openid cookie'') = (Inr r, st')
         \<and> sessions st' (SessionId session) = Some session
         \<and> Session_Type session = ''openidconnect''
         \<and> status r = 302
         \<and> (\<exists>qs. header r ''Location''
                     = Some (urlunparse services_example
                               ((urlparse services_example ''https://app1/cb'')
                                  \<lparr>query := urlencode_doseq qs\<rparr>))
               \<and> map_of qs ''state'' = Some [''s1'']
               \<and> cookie r = CookieSet (SessionId session)
               \<and> tokens st' = tokens empty_store
               \<and> map_of qs ''code''
                   = map_of (parse_qs services_example
                               (query (urlparse services_example ''https://app1/cb''))) ''code'')"
    by (elim exE conjE) (simp, blast)
  from cr [OF e1] cc au ut l1 d1 fs w1 w2 show ?thesis by blast
qed

end
